theory Spec2Isabelle
  imports Main
begin

section \<open>Expense-Tracker development server (server.py)\<close>

text \<open>
  The program is one class, \<open>PWAHandler\<close>, that overrides two methods of
  \<open>http.server.SimpleHTTPRequestHandler\<close>, a function \<open>main\<close> and the script block
  that picks the port. Its two methods call into the Python standard library
  (\<open>send_header\<close>, \<open>super().end_headers()\<close>, \<open>os.path.exists\<close>,
  \<open>super().do_GET()\<close>), so the library routines they reach are modelled as well, after
  CPython's \<open>http/server.py\<close>, \<open>posixpath.py\<close> and \<open>genericpath.py\<close>.

  Python strings are \<open>string\<close>: one \<open>char\<close> per code point below 256, which is what
  \<open>self.path\<close> holds (the request line is decoded as ISO-8859-1).

  The model starts where \<open>parse_request\<close> has succeeded and covers what is decided by
  the request line, the two request headers that \<open>send_head\<close> reads and the file
  system. Outside it are the other request headers (and with them keep-alive), path
  names that hold a NUL, the log lines on standard error, and path syntax other than
  POSIX.
\<close>

subsection \<open>Strings\<close>

definition CRLF :: string where
  "CRLF = [CHR 0x0D, CHR 0x0A]"

definition digit_char :: "nat \<Rightarrow> char" where
  "digit_char d = ''0123456789'' ! d"

text \<open>\<open>str(n)\<close> and \<open>"%d" % n\<close> for a natural number: its decimal digits.\<close>

function str_nat :: "nat \<Rightarrow> string" where
  "str_nat n = (if n < 10 then [digit_char n] else str_nat (n div 10) @ [digit_char (n mod 10)])"
  by pat_completeness auto
termination
  by (relation "measure id") auto

declare str_nat.simps [simp del]

text \<open>\<open>str(i)\<close> for a Python int.\<close>

definition str_int :: "int \<Rightarrow> string" where
  "str_int i = (if i < 0 then CHR ''-'' # str_nat (nat (- i)) else str_nat (nat i))"

text \<open>\<open>s.startswith(t)\<close> and \<open>s.endswith(c)\<close> for a one-character \<open>c\<close>.\<close>

definition startswith :: "string \<Rightarrow> string \<Rightarrow> bool" where
  "startswith s t = (take (length t) s = t)"

definition endswith :: "string \<Rightarrow> char \<Rightarrow> bool" where
  "endswith s c = (s \<noteq> [] \<and> last s = c)"

text \<open>\<open>s.split(c)\<close>: the pieces between the occurrences of \<open>c\<close>; never an empty list.\<close>

fun split_on :: "char \<Rightarrow> string \<Rightarrow> string list" where
  "split_on c [] = [[]]"
| "split_on c (x # xs) =
     (if x = c then [] # split_on c xs
      else (case split_on c xs of
              [] \<Rightarrow> [[x]]
            | w # ws \<Rightarrow> (x # w) # ws))"

text \<open>\<open>s.split(c, 1)[0]\<close>: the text before the first \<open>c\<close>, all of \<open>s\<close> when there is none.\<close>

definition before_first :: "char \<Rightarrow> string \<Rightarrow> string" where
  "before_first c s = takeWhile (\<lambda>x. x \<noteq> c) s"

text \<open>\<open>"/".join(words)\<close>.\<close>

fun join_slash :: "string list \<Rightarrow> string" where
  "join_slash [] = []"
| "join_slash [w] = w"
| "join_slash (w # ws) = w @ ''/'' @ join_slash ws"

text \<open>
  \<open>str.isspace\<close> on code points below 256 (tab to carriage return, the four separators
  0x1C to 0x1F, space, 0x85, 0xA0), and \<open>s.rstrip()\<close>.
\<close>

definition py_isspace :: "char \<Rightarrow> bool" where
  "py_isspace c =
     (let n = (of_char c :: nat)
      in (9 \<le> n \<and> n \<le> 13) \<or> (28 \<le> n \<and> n \<le> 32) \<or> n = 133 \<or> n = 160)"

definition rstrip :: "string \<Rightarrow> string" where
  "rstrip s = rev (dropWhile py_isspace (rev s))"

subsection \<open>posixpath\<close>

text \<open>\<open>os.path.join(a, b)\<close>.\<close>

definition os_path_join :: "string \<Rightarrow> string \<Rightarrow> string" where
  "os_path_join a b =
     (if startswith b ''/'' then b
      else if a = [] \<or> endswith a CHR ''/'' then a @ b
      else a @ ''/'' @ b)"

text \<open>
  \<open>os.path.dirname(p)\<close>: everything up to the last slash, without trailing slashes unless
  it is all slashes.
\<close>

definition os_path_dirname :: "string \<Rightarrow> string" where
  "os_path_dirname p =
     (let head = rev (dropWhile (\<lambda>x. x \<noteq> CHR ''/'') (rev p))
      in if head \<noteq> [] \<and> head \<noteq> replicate (length head) CHR ''/''
         then rev (dropWhile (\<lambda>x. x = CHR ''/'') (rev head))
         else head)"

text \<open>
  The loop of \<open>os.path.normpath\<close> over the components. \<open>initial\<close> says whether the path
  began with a slash; \<open>new_comps\<close> is the list built so far.
\<close>

fun normpath_loop :: "bool \<Rightarrow> string list \<Rightarrow> string list \<Rightarrow> string list" where
  "normpath_loop initial new_comps [] = new_comps"
| "normpath_loop initial new_comps (part # comps) =
     (if part = [] \<or> part = ''.'' then normpath_loop initial new_comps comps
      else if part \<noteq> ''..'' \<or> (\<not> initial \<and> new_comps = [])
              \<or> (new_comps \<noteq> [] \<and> last new_comps = ''..'')
           then normpath_loop initial (new_comps @ [part]) comps
      else if new_comps \<noteq> [] then normpath_loop initial (butlast new_comps) comps
      else normpath_loop initial new_comps comps)"

text \<open>
  \<open>os.path.normpath(path)\<close>. One or two leading slashes are kept, three or more become
  one; the empty result is \<open>.\<close>.
\<close>

definition normpath :: "string \<Rightarrow> string" where
  "normpath p =
     (if p = [] then ''.''
      else
        let initial_slashes =
              (if \<not> startswith p ''/'' then []
               else if startswith p ''//'' \<and> \<not> startswith p ''///'' then ''//''
               else ''/'');
            comps = normpath_loop (initial_slashes \<noteq> []) [] (split_on CHR ''/'' p);
            res = initial_slashes @ join_slash comps
        in if res = [] then ''.'' else res)"

subsection \<open>The environment: file system and library routines left open\<close>

text \<open>
  A path names a regular file that can be opened, with its bytes, a regular file that
  \<open>open\<close> refuses (no permission to read it), a directory, or nothing. Devices and
  sockets are not modelled.
\<close>

datatype node = File string | Unreadable | Dir

text \<open>
  What the handler's run depends on and the repository does not fix. \<open>fs\<close> is the file
  system by absolute path name. The working directory, which is also the directory
  \<open>SimpleHTTPRequestHandler\<close> serves, is an absolute path name: a slash and
  \<open>cwd_below_root\<close>. \<open>unmodified_since v p\<close> is the date test of the
  \<open>If-Modified-Since\<close> branch: the header value \<open>v\<close> parses as a date in UTC and the file
  \<open>p\<close> was last modified no later. The other fields are library routines
  whose result only fills a header value or a body and is taken as given:
  percent-decoding of a string that holds a \<open>%\<close>, \<open>urlsplit\<close> off origin-form targets,
  the redirect URL, \<open>guess_type\<close>, the \<open>Server\<close> and \<open>Date\<close> values, the
  \<open>Last-Modified\<close> value of a file, the HTML of an error page and of a directory
  listing (\<open>None\<close> when \<open>os.listdir\<close> raises), the file system encoding and \<open>repr\<close>.
\<close>

record environment =
  cwd_below_root :: string
  fs :: "string \<Rightarrow> node option"
  unmodified_since :: "string \<Rightarrow> string \<Rightarrow> bool"
  percent_decode :: "string \<Rightarrow> string"
  urlsplit_path_other :: "string \<Rightarrow> string"
  redirect_url :: "string \<Rightarrow> string"
  guess_type :: "string \<Rightarrow> string"
  version_string :: string
  date_time_string :: string
  last_modified :: "string \<Rightarrow> string"
  error_content :: "nat \<Rightarrow> string \<Rightarrow> string"
  directory_listing :: "string \<Rightarrow> string \<Rightarrow> string option"
  filesystem_encoding :: string
  py_repr :: "string \<Rightarrow> string"

text \<open>\<open>os.getcwd()\<close>.\<close>

definition getcwd :: "environment \<Rightarrow> string" where
  "getcwd env = CHR ''/'' # cwd_below_root env"

text \<open>
  \<open>os.stat(p)\<close>, \<open>None\<close> when it raises. A relative name is resolved against the working
  directory; the empty name never resolves (ENOENT).
\<close>

definition os_stat :: "environment \<Rightarrow> string \<Rightarrow> node option" where
  "os_stat env p = (if p = [] then None else fs env (os_path_join (getcwd env) p))"

text \<open>\<open>os.path.exists\<close>, \<open>os.path.isfile\<close>, \<open>os.path.isdir\<close>: all three go through \<open>os.stat\<close>.\<close>

definition os_path_exists :: "environment \<Rightarrow> string \<Rightarrow> bool" where
  "os_path_exists env p = (os_stat env p \<noteq> None)"

definition os_path_isfile :: "environment \<Rightarrow> string \<Rightarrow> bool" where
  "os_path_isfile env p =
     (case os_stat env p of
        Some (File _) \<Rightarrow> True
      | Some Unreadable \<Rightarrow> True
      | _ \<Rightarrow> False)"

definition os_path_isdir :: "environment \<Rightarrow> string \<Rightarrow> bool" where
  "os_path_isdir env p = (case os_stat env p of Some Dir \<Rightarrow> True | _ \<Rightarrow> False)"

text \<open>
  \<open>open(p, 'rb')\<close> and reading it all: the bytes, \<open>None\<close> for OSError (nothing there, a
  directory, or a file that may not be read).
\<close>

definition open_rb :: "environment \<Rightarrow> string \<Rightarrow> string option" where
  "open_rb env p = (case os_stat env p of Some (File bytes) \<Rightarrow> Some bytes | _ \<Rightarrow> None)"

subsection \<open>BaseHTTPRequestHandler\<close>

text \<open>
  The handler object while it answers one request whose request line has been parsed:
  the method, the request target, the protocol version (\<open>HTTP/0.9\<close> is the parser's
  default, which a request line of two words keeps), what \<open>send_head\<close> reads of
  \<open>self.headers\<close> (the value of \<open>If-Modified-Since\<close>, \<open>None\<close> when the request has
  none, and whether it has an \<open>If-None-Match\<close>), the header lines not yet written and
  the bytes written to the socket. \<open>close_connection\<close> is not modelled.
\<close>

record handler =
  command :: string
  path :: string
  request_version :: string
  if_modified_since :: "string option"
  if_none_match :: bool
  headers_buffer :: "string list"
  wfile :: string

definition protocol_version :: string where
  "protocol_version = ''HTTP/1.0''"

text \<open>The rows of the \<open>responses\<close> table that the handler can reach: the short message.\<close>

definition responses :: "nat \<Rightarrow> string option" where
  "responses code =
     (if code = 200 then Some ''OK''
      else if code = 301 then Some ''Moved Permanently''
      else if code = 304 then Some ''Not Modified''
      else if code = 404 then Some ''Not Found''
      else if code = 501 then Some ''Not Implemented''
      else None)"

definition send_response_only :: "handler \<Rightarrow> nat \<Rightarrow> string option \<Rightarrow> handler" where
  "send_response_only h code message =
     (if request_version h \<noteq> ''HTTP/0.9'' then
        let msg = (case message of
                     Some m \<Rightarrow> m
                   | None \<Rightarrow> (case responses code of Some m \<Rightarrow> m | None \<Rightarrow> []))
        in h\<lparr>headers_buffer := headers_buffer h
               @ [protocol_version @ '' '' @ str_nat code @ '' '' @ msg @ CRLF]\<rparr>
      else h)"

definition send_header :: "handler \<Rightarrow> string \<Rightarrow> string \<Rightarrow> handler" where
  "send_header h keyword val =
     (if request_version h \<noteq> ''HTTP/0.9'' then
        h\<lparr>headers_buffer := headers_buffer h @ [keyword @ '': '' @ val @ CRLF]\<rparr>
      else h)"

definition send_response :: "environment \<Rightarrow> handler \<Rightarrow> nat \<Rightarrow> string option \<Rightarrow> handler" where
  "send_response env h code message =
     send_header
       (send_header (send_response_only h code message) ''Server'' (version_string env))
       ''Date'' (date_time_string env)"

definition flush_headers :: "handler \<Rightarrow> handler" where
  "flush_headers h = h\<lparr>wfile := wfile h @ concat (headers_buffer h), headers_buffer := []\<rparr>"

text \<open>\<open>BaseHTTPRequestHandler.end_headers\<close>, which the subclass reaches as \<open>super().end_headers()\<close>.\<close>

definition super_end_headers :: "handler \<Rightarrow> handler" where
  "super_end_headers h =
     (if request_version h \<noteq> ''HTTP/0.9'' then
        flush_headers (h\<lparr>headers_buffer := headers_buffer h @ [CRLF]\<rparr>)
      else h)"

definition error_content_type :: string where
  "error_content_type = ''text/html;charset=utf-8''"

text \<open>
  \<open>send_error(code, message)\<close>. It ends the headers with \<open>self.end_headers()\<close>, which is
  the subclass's method when there is one: \<open>eh\<close>.
\<close>

definition send_error ::
  "(handler \<Rightarrow> handler) \<Rightarrow> environment \<Rightarrow> handler \<Rightarrow> nat \<Rightarrow> string \<Rightarrow> handler" where
  "send_error eh env h code message =
     (let h1 = send_header (send_response env h code (Some message)) ''Connection'' ''close''
      in if code \<ge> 200 \<and> code \<noteq> 204 \<and> code \<noteq> 205 \<and> code \<noteq> 304 then
           let body = error_content env code message;
               h2 = eh (send_header
                          (send_header h1 ''Content-Type'' error_content_type)
                          ''Content-Length'' (str_nat (length body)))
           in if command h2 \<noteq> ''HEAD'' \<and> body \<noteq> [] then h2\<lparr>wfile := wfile h2 @ body\<rparr> else h2
         else eh h1)"

subsection \<open>SimpleHTTPRequestHandler\<close>

text \<open>
  \<open>urllib.parse.unquote(s)\<close>: a string without \<open>%\<close> is returned as it is; decoding the
  escapes of any other string is left to the environment.
\<close>

definition unquote :: "environment \<Rightarrow> string \<Rightarrow> string" where
  "unquote env s = (if CHR ''%'' \<notin> set s then s else percent_decode env s)"

text \<open>
  The loop of \<open>translate_path\<close> over the words of the normalised path: a word that has a
  directory part, \<open>.\<close> and \<open>..\<close> are skipped, every other word is joined on.
\<close>

fun translate_words :: "string \<Rightarrow> string list \<Rightarrow> string" where
  "translate_words p [] = p"
| "translate_words p (word # ws) =
     (if os_path_dirname word \<noteq> [] \<or> word = ''.'' \<or> word = ''..''
      then translate_words p ws
      else translate_words (os_path_join p word) ws)"

text \<open>
  \<open>translate_path(path)\<close>: the query and the fragment are abandoned, the rest is
  unquoted and normalised, and its words are joined onto the served directory; a
  trailing slash of the request is kept.
\<close>

definition translate_path :: "environment \<Rightarrow> string \<Rightarrow> string" where
  "translate_path env p =
     (let p1 = before_first CHR ''#'' (before_first CHR ''?'' p);
          trailing_slash = endswith (rstrip p1) CHR ''/'';
          p2 = normpath (unquote env p1);
          ws = filter (\<lambda>w. w \<noteq> []) (split_on CHR ''/'' p2);
          res = translate_words (getcwd env) ws
      in if trailing_slash then res @ ''/'' else res)"

text \<open>
  \<open>urllib.parse.urlsplit(url).path\<close>. Tabs and line breaks are removed first. For a
  target that then starts with exactly one slash there is no scheme and no host, and the
  path is the text before the first \<open>#\<close> or \<open>?\<close>; other targets are left to the
  environment.
\<close>

definition urlsplit_path :: "environment \<Rightarrow> string \<Rightarrow> string" where
  "urlsplit_path env url =
     (let u = filter (\<lambda>c. c \<noteq> CHR 0x09 \<and> c \<noteq> CHR 0x0D \<and> c \<noteq> CHR 0x0A) url
      in if startswith u ''/'' \<and> \<not> startswith u ''//''
         then before_first CHR ''?'' (before_first CHR ''#'' u)
         else urlsplit_path_other env url)"

text \<open>
  The methods below call \<open>self.end_headers()\<close> and \<open>self.send_error(...)\<close>, which
  dispatch to the subclass: \<open>eh\<close> is the \<open>end_headers\<close> in force. Each returns the handler
  and the file object to copy, \<open>None\<close> when the response is complete.
\<close>

definition list_directory ::
  "(handler \<Rightarrow> handler) \<Rightarrow> environment \<Rightarrow> handler \<Rightarrow> string \<Rightarrow> handler \<times> string option" where
  "list_directory eh env h p =
     (case directory_listing env p (path h) of
        None \<Rightarrow> (send_error eh env h 404 ''No permission to list directory'', None)
      | Some encoded \<Rightarrow>
          (eh (send_header
                 (send_header (send_response env h 200 None)
                    ''Content-type'' (''text/html; charset='' @ filesystem_encoding env))
                 ''Content-Length'' (str_nat (length encoded))),
           Some encoded))"

text \<open>The first of \<open>index_pages\<close> that is a regular file in directory \<open>p\<close>.\<close>

definition index_pages :: "string list" where
  "index_pages = [''index.html'', ''index.htm'']"

definition find_index :: "environment \<Rightarrow> string \<Rightarrow> string option" where
  "find_index env p =
     List.find (os_path_isfile env) (map (os_path_join p) index_pages)"

text \<open>
  The test of the \<open>If-Modified-Since\<close> branch of \<open>send_head\<close> for the opened file
  \<open>p\<close>: the request has the header and no \<open>If-None-Match\<close>, and the date test holds.
\<close>

definition not_modified :: "environment \<Rightarrow> handler \<Rightarrow> string \<Rightarrow> bool" where
  "not_modified env h p =
     (case if_modified_since h of
        None \<Rightarrow> False
      | Some ims \<Rightarrow> \<not> if_none_match h \<and> unmodified_since env ims p)"

text \<open>
  The part of \<open>send_head\<close> from \<open>ctype = self.guess_type(path)\<close> on: 404 for a path
  that ends in a slash or cannot be opened, 304 without a body when the file is not
  modified, else status 200, the three headers and the file to copy.
\<close>

definition send_head_file ::
  "(handler \<Rightarrow> handler) \<Rightarrow> environment \<Rightarrow> handler \<Rightarrow> string \<Rightarrow> handler \<times> string option" where
  "send_head_file eh env h p =
     (if endswith p CHR ''/'' then (send_error eh env h 404 ''File not found'', None)
      else case open_rb env p of
             None \<Rightarrow> (send_error eh env h 404 ''File not found'', None)
           | Some bytes \<Rightarrow>
               if not_modified env h p then (eh (send_response env h 304 None), None)
               else
               (eh (send_header
                      (send_header
                         (send_header (send_response env h 200 None)
                            ''Content-type'' (guess_type env p))
                         ''Content-Length'' (str_nat (length bytes)))
                      ''Last-Modified'' (last_modified env p)),
                Some bytes))"

definition send_head ::
  "(handler \<Rightarrow> handler) \<Rightarrow> environment \<Rightarrow> handler \<Rightarrow> handler \<times> string option" where
  "send_head eh env h =
     (let p = translate_path env (path h)
      in if os_path_isdir env p then
           if \<not> endswith (urlsplit_path env (path h)) CHR ''/'' then
             (eh (send_header
                    (send_header (send_response env h 301 None)
                       ''Location'' (redirect_url env (path h)))
                    ''Content-Length'' ''0''),
              None)
           else (case find_index env p of
                   Some index \<Rightarrow> send_head_file eh env h index
                 | None \<Rightarrow> list_directory eh env h p)
         else send_head_file eh env h p)"

text \<open>
  \<open>SimpleHTTPRequestHandler.do_GET\<close>, which the subclass reaches as \<open>super().do_GET()\<close>:
  the head, then the file's bytes. \<open>do_HEAD\<close> sends the head only.
\<close>

definition super_do_GET :: "(handler \<Rightarrow> handler) \<Rightarrow> environment \<Rightarrow> handler \<Rightarrow> handler" where
  "super_do_GET eh env h =
     (case send_head eh env h of
        (h', Some bytes) \<Rightarrow> h'\<lparr>wfile := wfile h' @ bytes\<rparr>
      | (h', None) \<Rightarrow> h')"

definition do_HEAD :: "(handler \<Rightarrow> handler) \<Rightarrow> environment \<Rightarrow> handler \<Rightarrow> handler" where
  "do_HEAD eh env h = fst (send_head eh env h)"

subsection \<open>PWAHandler\<close>

text \<open>
  \<^verbatim>\<open>
  def end_headers(self):
      self.send_header('Cache-Control', 'no-cache, no-store, must-revalidate')
      self.send_header('Pragma', 'no-cache')
      self.send_header('Expires', '0')
      self.send_header('Access-Control-Allow-Origin', '*')
      self.send_header('Access-Control-Allow-Methods', 'GET, POST, OPTIONS')
      self.send_header('Access-Control-Allow-Headers', 'Content-Type')
      super().end_headers()
  \<close>
\<close>

definition end_headers :: "handler \<Rightarrow> handler" where
  "end_headers h =
     (let h1 = send_header h ''Cache-Control'' ''no-cache, no-store, must-revalidate'';
          h2 = send_header h1 ''Pragma'' ''no-cache'';
          h3 = send_header h2 ''Expires'' ''0'';
          h4 = send_header h3 ''Access-Control-Allow-Origin'' ''*'';
          h5 = send_header h4 ''Access-Control-Allow-Methods'' ''GET, POST, OPTIONS'';
          h6 = send_header h5 ''Access-Control-Allow-Headers'' ''Content-Type''
      in super_end_headers h6)"

text \<open>
  The six lines that these calls put into the buffer of a request with a protocol
  version, in the order of the calls.
\<close>

definition injected_lines :: "string list" where
  "injected_lines =
     [''Cache-Control: no-cache, no-store, must-revalidate'' @ CRLF,
      ''Pragma: no-cache'' @ CRLF,
      ''Expires: 0'' @ CRLF,
      ''Access-Control-Allow-Origin: *'' @ CRLF,
      ''Access-Control-Allow-Methods: GET, POST, OPTIONS'' @ CRLF,
      ''Access-Control-Allow-Headers: Content-Type'' @ CRLF]"

text \<open>
  \<^verbatim>\<open>
  def do_GET(self):
      if self.path == '/' or not os.path.exists(self.path[1:]):
          self.path = '/index.html'
      return super().do_GET()
  \<close>
  \<open>rewrite_path\<close> is the \<open>if\<close> statement, \<open>do_GET\<close> the whole method.
\<close>

definition rewrite_path :: "environment \<Rightarrow> handler \<Rightarrow> handler" where
  "rewrite_path env h =
     (if path h = ''/'' \<or> \<not> os_path_exists env (drop 1 (path h))
      then h\<lparr>path := ''/index.html''\<rparr>
      else h)"

definition do_GET :: "environment \<Rightarrow> handler \<Rightarrow> handler" where
  "do_GET env h = super_do_GET end_headers env (rewrite_path env h)"

text \<open>
  The end of \<open>handle_one_request\<close>, after the request line has been parsed: the method
  named \<open>do_\<close> plus the command is called when the handler has one. \<open>PWAHandler\<close> has
  its own \<open>do_GET\<close> and inherits \<open>do_HEAD\<close>; it has no other \<open>do_\<close> method.
\<close>

definition handle_one_request :: "environment \<Rightarrow> handler \<Rightarrow> handler" where
  "handle_one_request env h =
     (if command h = ''GET'' then do_GET env h
      else if command h = ''HEAD'' then do_HEAD end_headers env h
      else send_error end_headers env h 501
             (''Unsupported method ('' @ py_repr env (command h) @ '')''))"

subsection \<open>The process: exceptions, standard output, exit\<close>

text \<open>
  The exceptions that matter to \<open>main\<close>: an \<open>OSError\<close> with its \<open>errno\<close> and message,
  \<open>KeyboardInterrupt\<close>, the \<open>OverflowError\<close> of \<open>socket.bind\<close> for a port outside
  0 to 65535, and any other one. \<open>str(e)\<close> of an \<open>OSError\<close> is \<open>[Errno n] message\<close>.
\<close>

datatype exc = OSError int string | KeyboardInterrupt | OverflowError | OtherException

definition str_OSError :: "int \<Rightarrow> string \<Rightarrow> string" where
  "str_OSError errno strerror = ''[Errno '' @ str_int errno @ ''] '' @ strerror"

text \<open>
  How the process ends: \<open>sys.exit(n)\<close>, an exception nobody catches (the interpreter
  prints a traceback and exits with status 1), or not at all while \<open>serve_forever\<close> runs:
  then the server keeps listening on the port that \<open>Serving\<close> names.
\<close>

datatype ending = Exited int | Unhandled exc | Serving nat

text \<open>
  What the operating system and the interpreter decide: whether the system refuses to
  bind a port (with which errno and message), the port it assigns when asked for port
  0, how \<open>serve_forever\<close> ends (\<open>None\<close>: it never returns), the digit limit of \<open>int()\<close>
  (0: none), and \<open>int()\<close> on a string that is not ASCII.
\<close>

record world =
  bind_refused :: "nat \<Rightarrow> (int \<times> string) option"
  ephemeral_port :: nat
  serve_forever :: "exc option"
  int_max_str_digits :: nat
  int_non_ascii :: "string \<Rightarrow> int option"

text \<open>
  \<open>socketserver.TCPServer(("", PORT), PWAHandler)\<close>: the exception it raises, \<open>None\<close>
  when the socket is bound. \<open>socket.bind\<close> raises \<open>OverflowError\<close> for a port outside 0
  to 65535, before the system is asked; the system's refusal is an \<open>OSError\<close>.
\<close>

definition server_bind :: "world \<Rightarrow> int \<Rightarrow> exc option" where
  "server_bind w PORT =
     (if PORT < 0 \<or> 65535 < PORT then Some OverflowError
      else case bind_refused w (nat PORT) of
             Some (errno, strerror) \<Rightarrow> Some (OSError errno strerror)
           | None \<Rightarrow> None)"

text \<open>The port a socket bound with \<open>PORT\<close> listens on: the system's choice for port 0.\<close>

definition listening_port :: "world \<Rightarrow> int \<Rightarrow> nat" where
  "listening_port w PORT = (if PORT = 0 then ephemeral_port w else nat PORT)"

text \<open>
  Each message starts with a pictograph; they are given here as their UTF-8 bytes, and
  the quotations of the source below write \<open>...\<close> in their place.
\<close>

definition rocket :: string where
  "rocket = [CHR 0xF0, CHR 0x9F, CHR 0x9A, CHR 0x80]"

definition mobile_phone :: string where
  "mobile_phone = [CHR 0xF0, CHR 0x9F, CHR 0x93, CHR 0xB1]"

definition globe :: string where
  "globe = [CHR 0xF0, CHR 0x9F, CHR 0x8C, CHR 0x90]"

definition clipboard :: string where
  "clipboard = [CHR 0xF0, CHR 0x9F, CHR 0x93, CHR 0x8B]"

definition light_bulb :: string where
  "light_bulb = [CHR 0xF0, CHR 0x9F, CHR 0x92, CHR 0xA1]"

definition stop_sign :: string where
  "stop_sign = [CHR 0xF0, CHR 0x9F, CHR 0x9B, CHR 0x91]"

definition cross_mark :: string where
  "cross_mark = [CHR 0xE2, CHR 0x9D, CHR 0x8C]"

text \<open>
  Standard output is the list of the strings printed, one per \<open>print\<close> call. The lines
  that \<open>main\<close> prints once the server is bound:
\<close>

definition banner :: "int \<Rightarrow> string list" where
  "banner PORT =
     [rocket @ '' Expense Tracker PWA Server'',
      mobile_phone @ '' Server running at: http://localhost:'' @ str_int PORT,
      globe @ '' Access the app at: http://localhost:'' @ str_int PORT,
      clipboard @ '' Features available:'',
      ''   - PWA Installation'',
      ''   - Offline Support'',
      ''   - Camera Integration'',
      ''   - Geolocation'',
      ''   - Responsive Design'',
      CHR 0x0A # light_bulb @ '' For PWA features, use HTTPS in production'',
      stop_sign @ '' Press Ctrl+C to stop the server'']"

text \<open>
  \<^verbatim>\<open>
  except OSError as e:
      if e.errno == 48:
          print(f"... Port {PORT} is already in use. Try a different port.")
          print(f"... You can specify a different port: python3 server.py {PORT + 1}")
      else:
          print(f"... Error starting server: {e}")
      sys.exit(1)
  except KeyboardInterrupt:
      print(f"\n... Server stopped by user")
      sys.exit(0)
  \<close>
\<close>

definition except_clauses :: "int \<Rightarrow> exc \<Rightarrow> string list \<times> ending" where
  "except_clauses PORT e =
     (case e of
        OSError errno strerror \<Rightarrow>
          (if errno = 48 then
             [cross_mark @ '' Port '' @ str_int PORT @ '' is already in use. Try a different port.'',
              light_bulb @ '' You can specify a different port: python3 server.py ''
                @ str_int (PORT + 1)]
           else [cross_mark @ '' Error starting server: '' @ str_OSError errno strerror],
           Exited 1)
      | KeyboardInterrupt \<Rightarrow> ([CHR 0x0A # stop_sign @ '' Server stopped by user''], Exited 0)
      | OverflowError \<Rightarrow> ([], Unhandled e)
      | OtherException \<Rightarrow> ([], Unhandled e))"

text \<open>
  \<open>main(port)\<close>: the \<open>try\<close> block binds the server, prints the banner and serves; an
  exception of either step goes through the \<open>except\<close> clauses. The result is what was
  printed and how the process ended.
\<close>

definition main :: "world \<Rightarrow> int \<Rightarrow> string list \<times> ending" where
  "main w PORT =
     (case server_bind w PORT of
        Some e \<Rightarrow> except_clauses PORT e
      | None \<Rightarrow>
          (case serve_forever w of
             None \<Rightarrow> (banner PORT, Serving (listening_port w PORT))
           | Some e \<Rightarrow> (banner PORT @ fst (except_clauses PORT e), snd (except_clauses PORT e))))"

subsection \<open>The script block: the port from the command line\<close>

text \<open>
  \<open>int(s)\<close> on an ASCII string: blanks (tab to carriage return, space) are stripped at
  both ends, one sign may follow, and the rest is groups of digits separated by single
  underscores. More digits than the interpreter's limit is a \<open>ValueError\<close> too.
  \<open>None\<close> is \<open>ValueError\<close>.
\<close>

definition c_isspace :: "char \<Rightarrow> bool" where
  "c_isspace c = (let n = (of_char c :: nat) in (9 \<le> n \<and> n \<le> 13) \<or> n = 32)"

definition is_digit :: "char \<Rightarrow> bool" where
  "is_digit c = (let n = (of_char c :: nat) in 48 \<le> n \<and> n \<le> 57)"

definition digits_value :: "string \<Rightarrow> nat" where
  "digits_value ds = foldl (\<lambda>a c. 10 * a + (of_char c - 48)) 0 ds"

definition int_ascii :: "nat \<Rightarrow> string \<Rightarrow> int option" where
  "int_ascii max_digits s =
     (let t = dropWhile c_isspace (rev (dropWhile c_isspace (rev s)));
          neg = startswith t ''-'';
          body = (if startswith t ''-'' \<or> startswith t ''+'' then drop 1 t else t);
          ds = filter (\<lambda>c. c \<noteq> CHR ''_'') body
      in if list_all (\<lambda>g. g \<noteq> [] \<and> list_all is_digit g) (split_on CHR ''_'' body)
            \<and> (max_digits = 0 \<or> length ds \<le> max_digits)
         then Some (if neg then - int (digits_value ds) else int (digits_value ds))
         else None)"

definition py_int :: "world \<Rightarrow> string \<Rightarrow> int option" where
  "py_int w s =
     (if list_all (\<lambda>c. (of_char c :: nat) < 128) s
      then int_ascii (int_max_str_digits w) s
      else int_non_ascii w s)"

text \<open>
  \<^verbatim>\<open>
  if len(sys.argv) > 1:
      try:
          PORT = int(sys.argv[1])
      except ValueError:
          print("... Invalid port number. Using default port 8000.")
          PORT = 8000
  else:
      PORT = 8000
  main(PORT)
  \<close>
  \<open>select_port\<close> is the \<open>if\<close> statement: what it prints and the port. \<open>script\<close> is
  the whole block; \<open>argv\<close> is \<open>sys.argv\<close>, the program name first.
\<close>

definition select_port :: "world \<Rightarrow> string list \<Rightarrow> string list \<times> int" where
  "select_port w argv =
     (if length argv > 1 then
        (case py_int w (argv ! 1) of
           Some n \<Rightarrow> ([], n)
         | None \<Rightarrow> ([cross_mark @ '' Invalid port number. Using default port 8000.''], 8000))
      else ([], 8000))"

definition script :: "world \<Rightarrow> string list \<Rightarrow> string list \<times> ending" where
  "script w argv =
     (let (out, PORT) = select_port w argv;
          (out', e) = main w PORT
      in (out @ out', e))"

subsection \<open>Plain paths\<close>

text \<open>
  A name that \<open>translate_path\<close> passes on as it is: not empty, not \<open>.\<close> or \<open>..\<close>, and
  without a slash, a \<open>?\<close>, a \<open>#\<close>, a \<open>%\<close> or a blank. A plain path is a slash followed
  by such names with slashes between them, as in \<open>/app.js\<close> and \<open>/static/site.css\<close>.
\<close>

definition plain_char :: "char \<Rightarrow> bool" where
  "plain_char c =
     (c \<noteq> CHR ''/'' \<and> c \<noteq> CHR ''?'' \<and> c \<noteq> CHR ''#'' \<and> c \<noteq> CHR ''%'' \<and> \<not> py_isspace c)"

definition plain_word :: "string \<Rightarrow> bool" where
  "plain_word w = (w \<noteq> [] \<and> w \<noteq> ''.'' \<and> w \<noteq> ''..'' \<and> list_all plain_char w)"

definition plain_path :: "string list \<Rightarrow> string" where
  "plain_path ws = ''/'' @ join_slash ws"

subsection \<open>The handler without the test for the root path\<close>

text \<open>
  The variant of \<open>do_GET\<close> that claim C8 compares with: the condition is only
  \<open>not os.path.exists(self.path[1:])\<close>.
\<close>

definition rewrite_path_no_root_test :: "environment \<Rightarrow> handler \<Rightarrow> handler" where
  "rewrite_path_no_root_test env h =
     (if \<not> os_path_exists env (drop 1 (path h))
      then h\<lparr>path := ''/index.html''\<rparr>
      else h)"

definition do_GET_no_root_test :: "environment \<Rightarrow> handler \<Rightarrow> handler" where
  "do_GET_no_root_test env h = super_do_GET end_headers env (rewrite_path_no_root_test env h)"

subsection \<open>A sample site and sample requests\<close>

text \<open>
  A served directory \<open>/srv/app\<close> that holds \<open>index.html\<close>, \<open>app.js\<close>,
  \<open>static/site.css\<close>, a file whose name is \<open>app.js?v=2\<close>, a file whose name is
  \<open>report?id=7\<close> (there is no file \<open>report\<close>), a file \<open>secret.key\<close> that may not
  be read and a directory \<open>static\<close>.
  No file was modified after noon of 4 November 2026. The library routines left open
  return fixed values; none of the sample requests holds a \<open>%\<close>, and all are in origin
  form.
\<close>

definition site_fs :: "string \<Rightarrow> node option" where
  "site_fs p =
     (if p = ''/srv/app'' \<or> p = ''/srv/app/'' \<or> p = ''/srv/app/static''
          \<or> p = ''/srv/app/static/'' then Some Dir
      else if p = ''/srv/app/index.html'' then Some (File ''<html>'')
      else if p = ''/srv/app/app.js'' then Some (File ''js'')
      else if p = ''/srv/app/static/site.css'' then Some (File ''css'')
      else if p = ''/srv/app/app.js?v=2'' then Some (File ''old'')
      else if p = ''/srv/app/report?id=7'' then Some (File ''csv'')
      else if p = ''/srv/app/secret.key'' then Some Unreadable
      else None)"

definition site :: environment where
  "site =
     \<lparr>cwd_below_root = ''srv/app'',
      fs = site_fs,
      unmodified_since = (\<lambda>v p. v = ''Wed, 04 Nov 2026 12:00:00 GMT''),
      percent_decode = (\<lambda>s. s),
      urlsplit_path_other = (\<lambda>s. s),
      redirect_url = (\<lambda>s. s @ ''/''),
      guess_type = (\<lambda>p. ''application/octet-stream''),
      version_string = ''SimpleHTTP/0.6 Python/3.12.3'',
      date_time_string = ''Wed, 04 Nov 2026 12:00:00 GMT'',
      last_modified = (\<lambda>p. ''Tue, 03 Nov 2026 09:30:00 GMT''),
      error_content = (\<lambda>code message. ''<html>'' @ message @ ''</html>''),
      directory_listing = (\<lambda>p shown. Some (''<html>Directory listing for '' @ shown @ ''</html>'')),
      filesystem_encoding = ''utf-8'',
      py_repr = (\<lambda>s. [CHR 0x27] @ s @ [CHR 0x27])\<rparr>"

text \<open>
  The handler as \<open>parse_request\<close> leaves it for a request without \<open>If-Modified-Since\<close>
  and \<open>If-None-Match\<close>: nothing buffered, nothing written.
\<close>

definition request :: "string \<Rightarrow> string \<Rightarrow> string \<Rightarrow> handler" where
  "request method target version =
     \<lparr>command = method, path = target, request_version = version,
      if_modified_since = None, if_none_match = False,
      headers_buffer = [], wfile = []\<rparr>"

text \<open>
  Four runs of the process: the port is taken and the system reports it with Linux's
  \<open>EADDRINUSE\<close> (98) or with macOS's (48), a server that runs until Ctrl+C, and one
  that is never stopped.
\<close>

definition port_taken_linux :: world where
  "port_taken_linux =
     \<lparr>bind_refused = (\<lambda>port. Some (98, ''Address already in use'')),
      ephemeral_port = 49152,
      serve_forever = None,
      int_max_str_digits = 4300,
      int_non_ascii = (\<lambda>s. None)\<rparr>"

definition port_taken_macos :: world where
  "port_taken_macos =
     \<lparr>bind_refused = (\<lambda>port. Some (48, ''Address already in use'')),
      ephemeral_port = 49152,
      serve_forever = None,
      int_max_str_digits = 4300,
      int_non_ascii = (\<lambda>s. None)\<rparr>"

definition interrupted :: world where
  "interrupted =
     \<lparr>bind_refused = (\<lambda>port. None),
      ephemeral_port = 49152,
      serve_forever = Some KeyboardInterrupt,
      int_max_str_digits = 4300,
      int_non_ascii = (\<lambda>s. None)\<rparr>"

definition undisturbed :: world where
  "undisturbed =
     \<lparr>bind_refused = (\<lambda>port. None),
      ephemeral_port = 49152,
      serve_forever = None,
      int_max_str_digits = 4300,
      int_non_ascii = (\<lambda>s. None)\<rparr>"

section \<open>Properties\<close>

text \<open>The definitions that evaluate the sample site and a path translation.\<close>

lemmas site_simps = site_def site_fs_def request_def os_stat_def getcwd_def os_path_join_def
  startswith_def endswith_def

lemmas translate_simps = translate_path_def before_first_def rstrip_def py_isspace_def
  unquote_def normpath_def os_path_dirname_def Let_def

subsection \<open>Path rewriting\<close>

lemma os_stat_empty: "os_stat env [] = None"
  by (simp add: os_stat_def)

lemma os_path_exists_iff: "os_path_exists env p \<longleftrightarrow> os_stat env p \<noteq> None"
  by (simp add: os_path_exists_def)

text \<open>
  Claim C1, as the code has it. \<open>do_GET\<close> replaces the path with \<open>/index.html\<close> exactly
  when the path is \<open>/\<close> or \<open>os.stat\<close> finds nothing of any kind (no regular file and no
  directory either) at the path without its first character, and leaves the handler
  untouched otherwise; the delegate then runs on the result.
\<close>

theorem rewrite_path_iff_nothing_there:
  "rewrite_path env h =
     (if path h = ''/'' \<or> os_stat env (drop 1 (path h)) = None
      then h\<lparr>path := ''/index.html''\<rparr> else h)
   \<and> do_GET env h =
       super_do_GET end_headers env
         (if path h = ''/'' \<or> os_stat env (drop 1 (path h)) = None
          then h\<lparr>path := ''/index.html''\<rparr> else h)"
  by (simp add: rewrite_path_def do_GET_def os_path_exists_def)

text \<open>
  Claim C1 as stated fails on a directory: in the sample site \<open>static\<close> is a directory,
  so no regular file is at \<open>static\<close>, and still the path \<open>/static\<close> is not replaced.
\<close>

theorem rewrite_path_keeps_directory_counterexample:
  "\<not> os_path_isfile site ''static''
   \<and> os_stat site (drop 1 ''/static'') = Some Dir
   \<and> path (rewrite_path site (request ''GET'' ''/static'' ''HTTP/1.1'')) = ''/static''"
  by (simp add: rewrite_path_def os_path_exists_def os_path_isfile_def site_simps)

text \<open>
  Claim C8. The test for the root path is redundant: for \<open>/\<close> the stripped path is
  empty, the empty name never exists, and so the handler with the bare existence test
  rewrites the same requests and gives the same response.
\<close>

theorem root_test_redundant:
  "\<not> os_path_exists env (drop 1 ''/'')
   \<and> (path h = ''/'' \<or> \<not> os_path_exists env (drop 1 (path h)))
       = (\<not> os_path_exists env (drop 1 (path h)))
   \<and> rewrite_path env h = rewrite_path_no_root_test env h
   \<and> do_GET env h = do_GET_no_root_test env h"
  by (auto simp add: rewrite_path_def rewrite_path_no_root_test_def do_GET_def
      do_GET_no_root_test_def os_path_exists_def os_stat_def)

subsection \<open>Header injection\<close>

lemma end_headers_eq:
  "request_version h \<noteq> ''HTTP/0.9'' \<Longrightarrow>
   end_headers h = h\<lparr>headers_buffer := [],
       wfile := wfile h @ concat (headers_buffer h) @ concat injected_lines @ CRLF\<rparr>"
  by (simp add: end_headers_def send_header_def super_end_headers_def flush_headers_def
      injected_lines_def)

lemma end_headers_09: "request_version h = ''HTTP/0.9'' \<Longrightarrow> end_headers h = h"
  by (simp add: end_headers_def send_header_def super_end_headers_def flush_headers_def)

lemma end_headers_fields [simp]:
  "request_version (end_headers h) = request_version h"
  "command (end_headers h) = command h"
  "path (end_headers h) = path h"
  by (cases "request_version h = ''HTTP/0.9''"; simp add: end_headers_eq end_headers_09)+

lemma send_header_fields [simp]:
  "request_version (send_header h k v) = request_version h"
  "wfile (send_header h k v) = wfile h"
  "command (send_header h k v) = command h"
  "path (send_header h k v) = path h"
  by (simp_all add: send_header_def)

lemma send_response_fields [simp]:
  "request_version (send_response env h c m) = request_version h"
  "wfile (send_response env h c m) = wfile h"
  "command (send_response env h c m) = command h"
  "path (send_response env h c m) = path h"
  by (simp_all add: send_response_def send_response_only_def Let_def)

lemma rewrite_path_fields [simp]:
  "request_version (rewrite_path env h) = request_version h"
  "wfile (rewrite_path env h) = wfile h"
  "command (rewrite_path env h) = command h"
  "headers_buffer (rewrite_path env h) = headers_buffer h"
  by (simp_all add: rewrite_path_def)

text \<open>
  Whatever was buffered before, \<open>end_headers\<close> writes the six lines and the blank line
  behind it; a body may follow.
\<close>

lemma injected_after:
  assumes "request_version g \<noteq> ''HTTP/0.9''" and "wfile g = w"
  shows "\<exists>pre post. wfile (end_headers g) @ body = w @ pre @ concat injected_lines @ CRLF @ post"
proof -
  have "wfile (end_headers g) @ body
        = w @ concat (headers_buffer g) @ concat injected_lines @ CRLF @ body"
    using assms by (simp add: end_headers_eq)
  then show ?thesis by blast
qed

lemma injected_last:
  assumes "request_version g \<noteq> ''HTTP/0.9''" and "wfile g = w"
  shows "\<exists>pre post. wfile (end_headers g) = w @ pre @ concat injected_lines @ CRLF @ post"
  using injected_after [OF assms, of "[]"] by simp

lemma send_error_injects:
  assumes "request_version h \<noteq> ''HTTP/0.9''"
  shows "\<exists>pre post. wfile (send_error end_headers env h c m)
           = wfile h @ pre @ concat injected_lines @ CRLF @ post"
  using assms unfolding send_error_def Let_def
  by (auto intro!: injected_after injected_last)

lemma send_head_file_injects:
  assumes "request_version h \<noteq> ''HTTP/0.9''"
  shows "\<exists>pre post. wfile (fst (send_head_file end_headers env h p))
           = wfile h @ pre @ concat injected_lines @ CRLF @ post"
  using assms unfolding send_head_file_def
  by (auto intro!: injected_last send_error_injects split: option.splits)

lemma list_directory_injects:
  assumes "request_version h \<noteq> ''HTTP/0.9''"
  shows "\<exists>pre post. wfile (fst (list_directory end_headers env h p))
           = wfile h @ pre @ concat injected_lines @ CRLF @ post"
  using assms unfolding list_directory_def
  by (auto intro!: injected_last send_error_injects split: option.splits)

lemma send_head_injects:
  assumes "request_version h \<noteq> ''HTTP/0.9''"
  shows "\<exists>pre post. wfile (fst (send_head end_headers env h))
           = wfile h @ pre @ concat injected_lines @ CRLF @ post"
  using assms unfolding send_head_def Let_def
  by (auto intro!: injected_last send_head_file_injects list_directory_injects
      split: option.splits)

lemma super_do_GET_injects:
  assumes "request_version h \<noteq> ''HTTP/0.9''"
  shows "\<exists>pre post. wfile (super_do_GET end_headers env h)
           = wfile h @ pre @ concat injected_lines @ CRLF @ post"
proof -
  obtain pre post where w: "wfile (fst (send_head end_headers env h))
      = wfile h @ pre @ concat injected_lines @ CRLF @ post"
    using send_head_injects [OF assms] by blast
  obtain h' f where r: "send_head end_headers env h = (h', f)"
    by (cases "send_head end_headers env h")
  show ?thesis
  proof (cases f)
    case None
    with r w show ?thesis by (auto simp: super_do_GET_def)
  next
    case (Some bytes)
    with r w have "wfile (super_do_GET end_headers env h)
        = wfile h @ pre @ concat injected_lines @ CRLF @ (post @ bytes)"
      by (simp add: super_do_GET_def)
    then show ?thesis by blast
  qed
qed

lemma handle_one_request_injects:
  assumes "request_version h \<noteq> ''HTTP/0.9''"
  shows "\<exists>pre post. wfile (handle_one_request env h)
           = wfile h @ pre @ concat injected_lines @ CRLF @ post"
proof -
  have g: "\<exists>pre post. wfile (do_GET env h)
             = wfile h @ pre @ concat injected_lines @ CRLF @ post"
    using super_do_GET_injects [of "rewrite_path env h" env] assms
    by (simp add: do_GET_def)
  show ?thesis
    using assms g send_head_injects [OF assms, of env] send_error_injects [OF assms]
    by (simp add: handle_one_request_def do_HEAD_def)
qed

text \<open>
  Claim C2, as the code has it. \<open>end_headers\<close> makes its six \<open>send_header\<close> calls, in
  this order and with these values, and then runs the inherited \<open>end_headers\<close>. While
  the handler's \<open>request_version\<close> is anything but \<open>HTTP/0.9\<close>, this appends the six lines
  to the buffered header lines before the inherited method adds the blank line and
  writes the buffer out; every response to a parsed request (whatever the method, the
  path and the status) and every error reply then holds the six lines directly before
  the blank line that ends its head. While \<open>request_version\<close> is \<open>HTTP/0.9\<close> the calls
  do nothing: no line is appended and nothing is written.
\<close>

theorem end_headers_injects_six_lines:
  "let six = [''Cache-Control: no-cache, no-store, must-revalidate'' @ CRLF,
                ''Pragma: no-cache'' @ CRLF,
                ''Expires: 0'' @ CRLF,
                ''Access-Control-Allow-Origin: *'' @ CRLF,
                ''Access-Control-Allow-Methods: GET, POST, OPTIONS'' @ CRLF,
                ''Access-Control-Allow-Headers: Content-Type'' @ CRLF]
   in end_headers h =
        (if request_version h = ''HTTP/0.9'' then h
         else super_end_headers (h\<lparr>headers_buffer := headers_buffer h @ six\<rparr>))
      \<and> wfile (end_headers h) =
          wfile h @
          (if request_version h = ''HTTP/0.9'' then []
           else concat (headers_buffer h) @ concat six @ CRLF)
      \<and> (request_version h \<noteq> ''HTTP/0.9'' \<longrightarrow>
           (\<exists>pre post. wfile (handle_one_request env h)
              = wfile h @ pre @ concat six @ CRLF @ post)
           \<and> (\<forall>code message. \<exists>pre post.
                 wfile (send_error end_headers env h code message)
                 = wfile h @ pre @ concat six @ CRLF @ post))"
proof -
  have 1: "end_headers h =
        (if request_version h = ''HTTP/0.9'' then h
         else super_end_headers (h\<lparr>headers_buffer := headers_buffer h @ injected_lines\<rparr>))"
    by (simp add: end_headers_def send_header_def super_end_headers_def injected_lines_def)
  have 2: "wfile (end_headers h) =
          wfile h @
          (if request_version h = ''HTTP/0.9'' then []
           else concat (headers_buffer h) @ concat injected_lines @ CRLF)"
    by (simp add: end_headers_eq end_headers_09)
  have 3: "\<exists>pre post. wfile (handle_one_request env h)
              = wfile h @ pre @ concat injected_lines @ CRLF @ post"
    if "request_version h \<noteq> ''HTTP/0.9''"
    using handle_one_request_injects [OF that] .
  have 4: "\<exists>pre post. wfile (send_error end_headers env h code message)
                 = wfile h @ pre @ concat injected_lines @ CRLF @ post"
    if "request_version h \<noteq> ''HTTP/0.9''" for code message
    using send_error_injects [OF that] .
  from 1 2 3 4 show ?thesis
    unfolding Let_def injected_lines_def by blast
qed

text \<open>
  Witness for C2: \<open>end_headers\<close> on a fresh HTTP/1.1 request writes exactly the six lines
  and the blank line.
\<close>

theorem end_headers_injects_six_lines_witness:
  "request_version (request ''GET'' ''/app.js'' ''HTTP/1.1'') \<noteq> ''HTTP/0.9''
   \<and> wfile (end_headers (request ''GET'' ''/app.js'' ''HTTP/1.1''))
       = ''Cache-Control: no-cache, no-store, must-revalidate'' @ CRLF
         @ ''Pragma: no-cache'' @ CRLF
         @ ''Expires: 0'' @ CRLF
         @ ''Access-Control-Allow-Origin: *'' @ CRLF
         @ ''Access-Control-Allow-Methods: GET, POST, OPTIONS'' @ CRLF
         @ ''Access-Control-Allow-Headers: Content-Type'' @ CRLF
         @ CRLF"
proof -
  let ?h = "request ''GET'' ''/app.js'' ''HTTP/1.1''"
  have v: "request_version ?h \<noteq> ''HTTP/0.9''"
    by (simp add: request_def)
  have "wfile (end_headers ?h) =
          wfile ?h @
          (if request_version ?h = ''HTTP/0.9'' then []
           else concat (headers_buffer ?h)
             @ concat [''Cache-Control: no-cache, no-store, must-revalidate'' @ CRLF,
                ''Pragma: no-cache'' @ CRLF,
                ''Expires: 0'' @ CRLF,
                ''Access-Control-Allow-Origin: *'' @ CRLF,
                ''Access-Control-Allow-Methods: GET, POST, OPTIONS'' @ CRLF,
                ''Access-Control-Allow-Headers: Content-Type'' @ CRLF] @ CRLF)"
    using end_headers_injects_six_lines [of ?h site] unfolding Let_def by blast
  then show ?thesis using v by (simp add: request_def)
qed

text \<open>
  Claim C2 as stated fails while \<open>request_version\<close> is \<open>HTTP/0.9\<close>, which
  \<open>parse_request\<close> leaves for the request line \<open>GET /\<close> of two words and stores for a
  request line that names that version: \<open>send_header\<close> and the inherited
  \<open>end_headers\<close> then do nothing, and the response is the bare body.
\<close>

theorem http09_response_without_headers_counterexample:
  "request_version (request ''GET'' ''/'' ''HTTP/0.9'') = ''HTTP/0.9''
   \<and> end_headers (request ''GET'' ''/'' ''HTTP/0.9'') = request ''GET'' ''/'' ''HTTP/0.9''
   \<and> wfile (handle_one_request site (request ''GET'' ''/'' ''HTTP/0.9'')) = ''<html>''
   \<and> wfile (handle_one_request site (request ''GET'' ''/app.js'' ''HTTP/0.9'')) = ''js''"
  by (simp add: handle_one_request_def do_GET_def rewrite_path_def super_do_GET_def
      send_head_def send_head_file_def not_modified_def open_rb_def os_path_isdir_def
      os_path_exists_def translate_path_def before_first_def rstrip_def py_isspace_def
      unquote_def normpath_def os_path_dirname_def send_response_def send_response_only_def
      send_header_def end_headers_09 site_simps Let_def)

subsection \<open>Plain paths are translated to themselves\<close>

lemma split_on_not_Nil: "split_on c s \<noteq> []"
  by (induction s) (auto split: list.splits)

lemma split_on_no_sep: "c \<notin> set w \<Longrightarrow> split_on c w = [w]"
  by (induction w) auto

lemma split_on_word_sep: "c \<notin> set w \<Longrightarrow> split_on c (w @ c # s) = w # split_on c s"
  by (induction w) (auto split: list.splits simp: split_on_not_Nil)

lemma plain_word_no_slash: "plain_word w \<Longrightarrow> CHR ''/'' \<notin> set w"
  by (auto simp add: plain_word_def plain_char_def list_all_iff)

lemma split_on_join_slash:
  "ws \<noteq> [] \<Longrightarrow> list_all plain_word ws \<Longrightarrow> split_on CHR ''/'' (join_slash ws) = ws"
proof (induction ws rule: join_slash.induct)
  case 1
  then show ?case by simp
next
  case (2 w)
  then show ?case by (simp add: split_on_no_sep plain_word_no_slash)
next
  case (3 w v vs)
  then have "split_on CHR ''/'' (join_slash (v # vs)) = v # vs" by simp
  moreover have "CHR ''/'' \<notin> set w" using 3 by (simp add: plain_word_no_slash)
  ultimately show ?case
    using split_on_word_sep [of "CHR ''/''" w "join_slash (v # vs)"] by simp
qed

lemma normpath_loop_plain:
  "list_all plain_word ws \<Longrightarrow> normpath_loop initial acc ws = acc @ ws"
  by (induction ws arbitrary: acc) (auto simp add: plain_word_def)

lemma join_slash_not_Nil: "ws \<noteq> [] \<Longrightarrow> list_all plain_word ws \<Longrightarrow> join_slash ws \<noteq> []"
  by (induction ws rule: join_slash.induct) (auto simp add: plain_word_def)

lemma hd_join_slash:
  "ws \<noteq> [] \<Longrightarrow> list_all plain_word ws \<Longrightarrow> hd (join_slash ws) = hd (hd ws)"
  by (induction ws rule: join_slash.induct) (auto simp add: plain_word_def)

lemma last_join_slash:
  "ws \<noteq> [] \<Longrightarrow> list_all plain_word ws \<Longrightarrow> last (join_slash ws) = last (last ws)"
  by (induction ws rule: join_slash.induct) (auto simp add: plain_word_def join_slash_not_Nil)

lemma set_join_slash: "set (join_slash ws) \<subseteq> insert CHR ''/'' (\<Union> (set ` set ws))"
  by (induction ws rule: join_slash.induct) auto

lemma plain_chars_join_slash:
  assumes "list_all plain_word ws" and "c \<in> set (join_slash ws)" and "c \<noteq> CHR ''/''"
  shows "plain_char c"
proof -
  from assms(2,3) set_join_slash [of ws] obtain w where "w \<in> set ws" and "c \<in> set w"
    by auto
  with assms(1) show ?thesis by (auto simp add: list_all_iff plain_word_def)
qed

lemma before_first_absent: "c \<notin> set s \<Longrightarrow> before_first c s = s"
  by (auto simp add: before_first_def)

lemma before_first_at: "c \<notin> set s \<Longrightarrow> before_first c (s @ c # t) = s"
  by (auto simp add: before_first_def takeWhile_tail)

lemma rstrip_plain: "s \<noteq> [] \<Longrightarrow> \<not> py_isspace (last s) \<Longrightarrow> rstrip s = s"
  by (cases s rule: rev_cases) (simp_all add: rstrip_def)

lemma dirname_no_slash: "CHR ''/'' \<notin> set w \<Longrightarrow> os_path_dirname w = []"
  by (auto simp add: os_path_dirname_def Let_def)

lemma os_path_join_word:
  "w \<noteq> [] \<Longrightarrow> hd w \<noteq> CHR ''/'' \<Longrightarrow>
   os_path_join a w = (if a = [] \<or> endswith a CHR ''/'' then a @ w else a @ ''/'' @ w)"
  by (cases w) (simp_all add: os_path_join_def startswith_def)

lemma plain_word_hd: "plain_word w \<Longrightarrow> hd w \<noteq> CHR ''/''"
  by (cases w) (auto simp add: plain_word_def plain_char_def)

lemma plain_word_last: "plain_word w \<Longrightarrow> last w \<noteq> CHR ''/'' \<and> \<not> py_isspace (last w)"
proof -
  assume p: "plain_word w"
  then have "w \<noteq> []" by (simp add: plain_word_def)
  then have "last w \<in> set w" by simp
  with p have "plain_char (last w)" by (auto simp add: plain_word_def list_all_iff)
  then show ?thesis by (simp add: plain_char_def)
qed

lemma translate_words_plain:
  "ws \<noteq> [] \<Longrightarrow> list_all plain_word ws \<Longrightarrow>
   translate_words a ws = os_path_join a (join_slash ws)"
proof (induction ws arbitrary: a rule: join_slash.induct)
  case 1
  then show ?case by simp
next
  case (2 w)
  then show ?case
    by (auto simp add: dirname_no_slash plain_word_no_slash plain_word_def)
next
  case (3 w v vs)
  let ?rest = "join_slash (v # vs)"
  from 3 have pw: "plain_word w" and pr: "list_all plain_word (v # vs)" by simp_all
  have step: "translate_words a (w # v # vs) = translate_words (os_path_join a w) (v # vs)"
    using pw by (auto simp add: dirname_no_slash plain_word_no_slash plain_word_def)
  have ih: "translate_words (os_path_join a w) (v # vs) = os_path_join (os_path_join a w) ?rest"
    using 3 by simp
  have rn: "?rest \<noteq> []" and rh: "hd ?rest \<noteq> CHR ''/''"
    using pr join_slash_not_Nil [of "v # vs"] hd_join_slash [of "v # vs"] plain_word_hd [of v]
    by simp_all
  have wn: "w \<noteq> []" and wh: "hd w \<noteq> CHR ''/''" and wl: "last w \<noteq> CHR ''/''"
    using pw plain_word_hd plain_word_last by (auto simp add: plain_word_def)
  have j1: "os_path_join a w = (if a = [] \<or> endswith a CHR ''/'' then a @ w else a @ ''/'' @ w)"
    using os_path_join_word [OF wn wh] .
  have e: "\<not> endswith (os_path_join a w) CHR ''/''" and n: "os_path_join a w \<noteq> []"
    using wn wl by (auto simp add: j1 endswith_def)
  have j2: "os_path_join (os_path_join a w) ?rest = os_path_join a w @ ''/'' @ ?rest"
    using os_path_join_word [OF rn rh, of "os_path_join a w"] e n by simp
  have whd: "hd (w @ ''/'' @ ?rest) \<noteq> CHR ''/''" using wn wh by simp
  have j3: "os_path_join a (w @ ''/'' @ ?rest)
            = (if a = [] \<or> endswith a CHR ''/'' then a @ w @ ''/'' @ ?rest
               else a @ ''/'' @ w @ ''/'' @ ?rest)"
    using os_path_join_word [of "w @ ''/'' @ ?rest" a] whd by simp
  show ?case
    unfolding step ih j2 using j1 j3 by simp
qed

lemma normpath_plain:
  assumes "ws \<noteq> []" and "list_all plain_word ws"
  shows "normpath (plain_path ws) = plain_path ws"
proof -
  have n: "join_slash ws \<noteq> []" and h: "hd (join_slash ws) \<noteq> CHR ''/''"
    using assms join_slash_not_Nil hd_join_slash [of ws] plain_word_hd [of "hd ws"]
    by (cases ws; simp)+
  then obtain c cs where j: "join_slash ws = c # cs" and c: "c \<noteq> CHR ''/''"
    by (cases "join_slash ws") auto
  have sp: "split_on CHR ''/'' (plain_path ws) = [] # ws"
    using split_on_join_slash [OF assms] by (simp add: plain_path_def)
  have lp: "normpath_loop True [] ([] # ws) = ws"
    using normpath_loop_plain [OF assms(2), of True "[]"] by simp
  show ?thesis
    using sp lp j c n
    by (simp add: normpath_def startswith_def plain_path_def Let_def)
qed

lemma plain_path_chars:
  assumes "list_all plain_word ws" and "c \<in> set (plain_path ws)"
  shows "c = CHR ''/'' \<or> plain_char c"
  using assms plain_chars_join_slash [of ws c] by (auto simp add: plain_path_def)

lemma plain_path_free:
  assumes "list_all plain_word ws"
  shows "CHR ''?'' \<notin> set (plain_path ws)" "CHR ''#'' \<notin> set (plain_path ws)"
    "CHR ''%'' \<notin> set (plain_path ws)"
  using plain_path_chars [OF assms] by (auto simp add: plain_char_def)

lemma plain_path_last:
  assumes "ws \<noteq> []" and "list_all plain_word ws"
  shows "last (plain_path ws) \<noteq> CHR ''/''" "\<not> py_isspace (last (plain_path ws))"
proof -
  have "last ws \<in> set ws" using assms(1) by simp
  then have "plain_word (last ws)" using assms(2) by (simp add: list_all_iff)
  moreover have "last (plain_path ws) = last (last ws)"
    using assms join_slash_not_Nil last_join_slash by (simp add: plain_path_def)
  ultimately show "last (plain_path ws) \<noteq> CHR ''/''" "\<not> py_isspace (last (plain_path ws))"
    using plain_word_last by simp_all
qed

lemma translate_path_plain:
  assumes "ws \<noteq> []" and "list_all plain_word ws"
  shows "translate_path env (plain_path ws) = os_path_join (getcwd env) (join_slash ws)"
proof -
  note f = plain_path_free [OF assms(2)]
  note l = plain_path_last [OF assms]
  have ne: "plain_path ws \<noteq> []" by (simp add: plain_path_def)
  have b: "before_first CHR ''#'' (before_first CHR ''?'' (plain_path ws)) = plain_path ws"
    using f by (simp add: before_first_absent)
  have r: "\<not> endswith (rstrip (plain_path ws)) CHR ''/''"
    using rstrip_plain [OF ne l(2)] l(1) by (simp add: endswith_def)
  have u: "unquote env (plain_path ws) = plain_path ws"
    using f by (simp add: unquote_def)
  have s: "filter (\<lambda>w. w \<noteq> []) (split_on CHR ''/'' (plain_path ws)) = ws"
  proof -
    have "split_on CHR ''/'' (plain_path ws) = [] # ws"
      using split_on_join_slash [OF assms] by (simp add: plain_path_def)
    moreover have "filter (\<lambda>w. w \<noteq> []) ws = ws"
      using assms(2) by (simp add: list_all_iff plain_word_def filter_id_conv)
    ultimately show ?thesis by simp
  qed
  show ?thesis
    using r by (simp add: translate_path_def b u normpath_plain [OF assms] s
        translate_words_plain [OF assms] Let_def)
qed

lemma translate_path_query:
  assumes "CHR ''?'' \<notin> set t"
  shows "translate_path env (t @ ''?'' @ q) = translate_path env t"
  using assms by (simp add: translate_path_def before_first_at before_first_absent)

lemma drop_plain_path:
  "drop 1 (plain_path ws) = join_slash ws" "drop (Suc 0) (plain_path ws) = join_slash ws"
  by (simp_all add: plain_path_def)

subsection \<open>What the delegate sends\<close>

lemma site_fields:
  "getcwd site = ''/srv/app''"
  "guess_type site p = ''application/octet-stream''"
  "error_content site code message = ''<html>'' @ message @ ''</html>''"
  "redirect_url site s = s @ ''/''"
  "unmodified_since site v p = (v = ''Wed, 04 Nov 2026 12:00:00 GMT'')"
  by (simp_all add: site_def getcwd_def)

lemma request_fields:
  "command (request m t v) = m"
  "path (request m t v) = t"
  "request_version (request m t v) = v"
  "if_modified_since (request m t v) = None"
  "if_none_match (request m t v) = False"
  "headers_buffer (request m t v) = []"
  "wfile (request m t v) = []"
  by (simp_all add: request_def)

lemma str_nat_small:
  "str_nat 0 = ''0''" "str_nat 2 = ''2''" "str_nat 3 = ''3''" "str_nat 6 = ''6''"
  "str_nat 27 = ''27''"
  by (simp_all add: str_nat.simps digit_char_def)

lemma str_nat_status:
  "str_nat 200 = ''200''" "str_nat 301 = ''301''" "str_nat 304 = ''304''"
  "str_nat 404 = ''404''"
  by (simp_all add: str_nat.simps digit_char_def)

text \<open>The working directory is absolute, so a name joined onto it resolves to itself.\<close>

lemma os_path_join_getcwd_absolute:
  "startswith (os_path_join (getcwd env) x) ''/''"
  by (simp add: os_path_join_def getcwd_def startswith_def)

lemma os_path_join_getcwd_idem:
  "os_path_join (getcwd env) (os_path_join (getcwd env) x) = os_path_join (getcwd env) x"
  using os_path_join_getcwd_absolute [of env x] by (simp add: os_path_join_def)

lemma os_stat_resolved: "x \<noteq> [] \<Longrightarrow> os_stat env (os_path_join (getcwd env) x) = os_stat env x"
  by (auto simp add: os_stat_def os_path_join_getcwd_idem)
     (simp add: os_path_join_def getcwd_def split: if_splits)

lemma endswith_join:
  "x \<noteq> [] \<Longrightarrow> endswith (os_path_join a x) c = endswith x c"
  by (auto simp add: os_path_join_def endswith_def)

lemma not_modified_path [simp]: "not_modified env (h\<lparr>path := q\<rparr>) p = not_modified env h p"
  by (simp add: not_modified_def split: option.splits)

lemma translate_path_index:
  "translate_path env ''/index.html'' = os_path_join (getcwd env) ''index.html''"
  by (simp add: translate_simps endswith_def startswith_def)


lemma index_not_slash: "\<not> endswith (os_path_join a ''index.html'') CHR ''/''"
  by (simp add: os_path_join_def endswith_def startswith_def)

lemma not_dir_if_file: "os_stat env p = Some (File b) \<Longrightarrow> \<not> os_path_isdir env p"
  by (simp add: os_path_isdir_def)

lemma not_dir_if_unreadable: "os_stat env p = Some Unreadable \<Longrightarrow> \<not> os_path_isdir env p"
  by (simp add: os_path_isdir_def)

lemma not_dir_if_none: "os_stat env p = None \<Longrightarrow> \<not> os_path_isdir env p"
  by (simp add: os_path_isdir_def)

lemma send_error_404:
  "send_error end_headers env h 404 msg =
     h\<lparr>headers_buffer := (if request_version h = ''HTTP/0.9'' then headers_buffer h else []),
       wfile := wfile h @
         (if request_version h = ''HTTP/0.9'' then []
          else concat (headers_buffer h)
            @ ''HTTP/1.0 404 '' @ msg @ CRLF
            @ ''Server: '' @ version_string env @ CRLF
            @ ''Date: '' @ date_time_string env @ CRLF
            @ ''Connection: close'' @ CRLF
            @ ''Content-Type: text/html;charset=utf-8'' @ CRLF
            @ ''Content-Length: '' @ str_nat (length (error_content env 404 msg)) @ CRLF
            @ concat injected_lines @ CRLF)
         @ (if command h \<noteq> ''HEAD'' then error_content env 404 msg else [])\<rparr>"
  by (cases "request_version h = ''HTTP/0.9''")
     (simp_all add: send_error_def send_response_def send_response_only_def
      send_header_def end_headers_eq end_headers_09 protocol_version_def
      str_nat_status error_content_type_def Let_def)

text \<open>The three outcomes of \<open>send_head\<close> for a path that is not a directory.\<close>

lemma send_head_file_found:
  assumes "os_stat env p = Some (File bytes)" and "\<not> endswith p CHR ''/''"
    and "\<not> not_modified env h p"
  shows "send_head_file end_headers env h p =
     (h\<lparr>headers_buffer := (if request_version h = ''HTTP/0.9'' then headers_buffer h else []),
        wfile :=
          wfile h @
          (if request_version h = ''HTTP/0.9'' then []
           else concat (headers_buffer h)
                  @ ''HTTP/1.0 200 OK'' @ CRLF
                  @ ''Server: '' @ version_string env @ CRLF
                  @ ''Date: '' @ date_time_string env @ CRLF
                  @ ''Content-type: '' @ guess_type env p @ CRLF
                  @ ''Content-Length: '' @ str_nat (length bytes) @ CRLF
                  @ ''Last-Modified: '' @ last_modified env p @ CRLF
                  @ concat injected_lines @ CRLF)\<rparr>,
      Some bytes)"
  using assms
  by (cases "request_version h = ''HTTP/0.9''")
     (simp_all add: send_head_file_def open_rb_def send_response_def send_response_only_def
      send_header_def end_headers_eq end_headers_09 responses_def protocol_version_def
      str_nat_status)

lemma send_head_file_not_modified:
  assumes "os_stat env p = Some (File bytes)" and "\<not> endswith p CHR ''/''"
    and "not_modified env h p"
  shows "send_head_file end_headers env h p =
     (h\<lparr>headers_buffer := (if request_version h = ''HTTP/0.9'' then headers_buffer h else []),
        wfile :=
          wfile h @
          (if request_version h = ''HTTP/0.9'' then []
           else concat (headers_buffer h)
                  @ ''HTTP/1.0 304 Not Modified'' @ CRLF
                  @ ''Server: '' @ version_string env @ CRLF
                  @ ''Date: '' @ date_time_string env @ CRLF
                  @ concat injected_lines @ CRLF)\<rparr>,
      None)"
  using assms
  by (cases "request_version h = ''HTTP/0.9''")
     (simp_all add: send_head_file_def open_rb_def send_response_def send_response_only_def
      send_header_def end_headers_eq end_headers_09 responses_def protocol_version_def
      str_nat_status)

lemma send_head_file_missing:
  assumes "os_stat env p = None \<or> os_stat env p = Some Unreadable"
  shows "send_head_file end_headers env h p
         = (send_error end_headers env h 404 ''File not found'', None)"
  using assms by (auto simp add: send_head_file_def open_rb_def)

lemma send_head_not_dir:
  assumes "\<not> os_path_isdir env (translate_path env (path h))"
  shows "send_head end_headers env h
         = send_head_file end_headers env h (translate_path env (path h))"
  using assms by (simp add: send_head_def)


lemma urlsplit_path_index: "urlsplit_path env ''/index.html'' = ''/index.html''"
  by (simp add: urlsplit_path_def startswith_def before_first_def)

lemma find_index_html:
  assumes "os_path_isfile env (d @ ''/index.html'')"
  shows "find_index env (d @ ''/'') = Some (d @ ''/index.html'')"
  using assms
  by (simp add: find_index_def index_pages_def os_path_join_def
      startswith_def endswith_def)

text \<open>The delegate's answer for a request whose translated path is a readable file.\<close>

lemma super_do_GET_regular:
  assumes "os_stat env (translate_path env (path h)) = Some (File bytes)"
    and "\<not> endswith (translate_path env (path h)) CHR ''/''"
  shows "wfile (super_do_GET end_headers env h) =
    (if not_modified env h (translate_path env (path h))
     then
       wfile h @
       (if request_version h = ''HTTP/0.9'' then []
        else concat (headers_buffer h)
               @ ''HTTP/1.0 304 Not Modified'' @ CRLF
               @ ''Server: '' @ version_string env @ CRLF
               @ ''Date: '' @ date_time_string env @ CRLF
               @ concat injected_lines @ CRLF)
     else
       wfile h @
       (if request_version h = ''HTTP/0.9'' then []
        else concat (headers_buffer h)
               @ ''HTTP/1.0 200 OK'' @ CRLF
               @ ''Server: '' @ version_string env @ CRLF
               @ ''Date: '' @ date_time_string env @ CRLF
               @ ''Content-type: '' @ guess_type env (translate_path env (path h)) @ CRLF
               @ ''Content-Length: '' @ str_nat (length bytes) @ CRLF
               @ ''Last-Modified: '' @ last_modified env (translate_path env (path h)) @ CRLF
               @ concat injected_lines @ CRLF)
       @ bytes)"
proof -
  note hd = send_head_not_dir [OF not_dir_if_file [OF assms(1)]]
  show ?thesis
  proof (cases "not_modified env h (translate_path env (path h))")
    case True
    with hd send_head_file_not_modified [OF assms True] show ?thesis
      by (simp add: super_do_GET_def)
  next
    case False
    with hd send_head_file_found [OF assms False] show ?thesis
      by (simp add: super_do_GET_def)
  qed
qed

lemma rewrite_path_index_idem:
  "rewrite_path env (h\<lparr>path := ''/index.html''\<rparr>) = h\<lparr>path := ''/index.html''\<rparr>"
  by (simp add: rewrite_path_def)

lemma set_os_path_join: "set x \<subseteq> set (os_path_join a x)"
  by (auto simp add: os_path_join_def)


text \<open>No routine of the delegate changes the path or the command of the handler.\<close>

lemma send_error_path [simp]: "path (send_error end_headers env h code m) = path h"
  by (simp add: send_error_def Let_def)



subsection \<open>Requests for files that exist\<close>

text \<open>
  Claim C3, as the code has it. For a GET request whose path is not \<open>/\<close> and has a
  regular file at the path without its first character, \<open>do_GET\<close> leaves the handler as
  it is and the delegate runs on exactly that path. For every plain path the
  delegate's translation of the path is that same location. Whenever it is, and the
  path does not end in a slash, the delegate answers with that very file: 404 when the
  file may not be read; 304 and no body when the request is conditional and the file
  is not modified; else a head with status 200 (none for \<open>HTTP/0.9\<close>) and then the bytes
  of the file.
\<close>

theorem existing_file_not_rewritten:
  assumes "command h = ''GET''" and "path h \<noteq> ''/''"
    and "os_path_isfile env (drop 1 (path h))"
  shows "rewrite_path env h = h
    \<and> do_GET env h = super_do_GET end_headers env h
    \<and> (\<forall>ws. ws \<noteq> [] \<and> list_all plain_word ws \<and> path h = plain_path ws \<longrightarrow>
          translate_path env (path h) = os_path_join (getcwd env) (drop 1 (path h))
          \<and> \<not> endswith (path h) CHR ''/'')
    \<and> (translate_path env (path h) = os_path_join (getcwd env) (drop 1 (path h))
          \<and> \<not> endswith (path h) CHR ''/'' \<longrightarrow>
         (os_stat env (drop 1 (path h)) = Some Unreadable \<longrightarrow>
            wfile (do_GET env h) =
            wfile h @
            (if request_version h = ''HTTP/0.9'' then []
             else concat (headers_buffer h)
                    @ ''HTTP/1.0 404 File not found'' @ CRLF
                    @ ''Server: '' @ version_string env @ CRLF
                    @ ''Date: '' @ date_time_string env @ CRLF
                    @ ''Connection: close'' @ CRLF
                    @ ''Content-Type: text/html;charset=utf-8'' @ CRLF
                    @ ''Content-Length: '' @ str_nat (length (error_content env 404 ''File not found'')) @ CRLF
                    @ concat injected_lines @ CRLF)
            @ error_content env 404 ''File not found'')
         \<and> (\<forall>raw. os_stat env (drop 1 (path h)) = Some (File raw) \<longrightarrow>
               wfile (do_GET env h) =
               (if not_modified env h (translate_path env (path h))
                then
                  wfile h @
                  (if request_version h = ''HTTP/0.9'' then []
                   else concat (headers_buffer h)
                          @ ''HTTP/1.0 304 Not Modified'' @ CRLF
                          @ ''Server: '' @ version_string env @ CRLF
                          @ ''Date: '' @ date_time_string env @ CRLF
                          @ concat injected_lines @ CRLF)
                else
                  wfile h @
                  (if request_version h = ''HTTP/0.9'' then []
                   else concat (headers_buffer h)
                          @ ''HTTP/1.0 200 OK'' @ CRLF
                          @ ''Server: '' @ version_string env @ CRLF
                          @ ''Date: '' @ date_time_string env @ CRLF
                          @ ''Content-type: '' @ guess_type env (translate_path env (path h)) @ CRLF
                          @ ''Content-Length: '' @ str_nat (length raw) @ CRLF
                          @ ''Last-Modified: '' @ last_modified env (translate_path env (path h)) @ CRLF
                          @ concat injected_lines @ CRLF)
                  @ raw)))"
proof -
  let ?x = "drop 1 (path h)"
  let ?t = "translate_path env (path h)"
  from assms(3) have ex: "os_stat env ?x \<noteq> None"
    by (auto simp add: os_path_isfile_def split: option.splits)
  then have xn: "?x \<noteq> []" by (auto simp add: os_stat_def)
  have r: "rewrite_path env h = h"
    using assms(2) ex by (simp add: rewrite_path_def os_path_exists_def)
  then have d: "do_GET env h = super_do_GET end_headers env h"
    by (simp add: do_GET_def)
  have p: "translate_path env (path h) = os_path_join (getcwd env) ?x
           \<and> \<not> endswith (path h) CHR ''/''"
    if "ws \<noteq> []" and "list_all plain_word ws" and "path h = plain_path ws" for ws
    using translate_path_plain [OF that(1,2), of env] plain_path_last(1) [OF that(1,2)] that(3)
    by (simp add: drop_plain_path endswith_def)
  have e: "endswith ?x CHR ''/'' = endswith (path h) CHR ''/''"
    using xn by (cases "path h") (simp_all add: endswith_def)
  have u: "wfile (super_do_GET end_headers env h) =
            wfile h @
            (if request_version h = ''HTTP/0.9'' then []
             else concat (headers_buffer h)
                    @ ''HTTP/1.0 404 File not found'' @ CRLF
                    @ ''Server: '' @ version_string env @ CRLF
                    @ ''Date: '' @ date_time_string env @ CRLF
                    @ ''Connection: close'' @ CRLF
                    @ ''Content-Type: text/html;charset=utf-8'' @ CRLF
                    @ ''Content-Length: '' @ str_nat (length (error_content env 404 ''File not found'')) @ CRLF
                    @ concat injected_lines @ CRLF)
            @ error_content env 404 ''File not found''"
    if "?t = os_path_join (getcwd env) ?x" and "\<not> endswith (path h) CHR ''/''"
      and "os_stat env ?x = Some Unreadable"
  proof -
    have s: "os_stat env ?t = Some Unreadable"
      using that(1,3) os_stat_resolved [OF xn, of env] by simp
    from send_head_not_dir [OF not_dir_if_unreadable [OF s]] s assms(1) show ?thesis
      by (simp add: super_do_GET_def send_head_file_missing send_error_404)
  qed
  have f: "wfile (super_do_GET end_headers env h) =
               (if not_modified env h (translate_path env (path h))
                then
                  wfile h @
                  (if request_version h = ''HTTP/0.9'' then []
                   else concat (headers_buffer h)
                          @ ''HTTP/1.0 304 Not Modified'' @ CRLF
                          @ ''Server: '' @ version_string env @ CRLF
                          @ ''Date: '' @ date_time_string env @ CRLF
                          @ concat injected_lines @ CRLF)
                else
                  wfile h @
                  (if request_version h = ''HTTP/0.9'' then []
                   else concat (headers_buffer h)
                          @ ''HTTP/1.0 200 OK'' @ CRLF
                          @ ''Server: '' @ version_string env @ CRLF
                          @ ''Date: '' @ date_time_string env @ CRLF
                          @ ''Content-type: '' @ guess_type env (translate_path env (path h)) @ CRLF
                          @ ''Content-Length: '' @ str_nat (length raw) @ CRLF
                          @ ''Last-Modified: '' @ last_modified env (translate_path env (path h)) @ CRLF
                          @ concat injected_lines @ CRLF)
                  @ raw)"
    if "?t = os_path_join (getcwd env) ?x" and "\<not> endswith (path h) CHR ''/''"
      and "os_stat env ?x = Some (File raw)" for raw
  proof -
    have s: "os_stat env ?t = Some (File raw)"
      using that(1,3) os_stat_resolved [OF xn, of env] by simp
    have n: "\<not> endswith ?t CHR ''/''"
      using that(1,2) e endswith_join [OF xn, of "getcwd env" "CHR ''/''"] by simp
    note hd = send_head_not_dir [OF not_dir_if_file [OF s]]
    show ?thesis
    proof (cases "not_modified env h ?t")
      case True
      with hd send_head_file_not_modified [OF s n True] show ?thesis
        by (simp add: super_do_GET_def)
    next
      case False
      with hd send_head_file_found [OF s n False] show ?thesis
        by (simp add: super_do_GET_def)
    qed
  qed
  from r d p u f show ?thesis by simp
qed

text \<open>
  Witness for C3, in the sample site: \<open>/static/site.css\<close> is a plain path of two
  names, is left unchanged and is answered with the three bytes of that file; the same
  request with an \<open>If-Modified-Since\<close> that the file satisfies is answered 304; and
  \<open>/secret.key\<close>, which may not be read, is answered 404.
\<close>

theorem existing_file_not_rewritten_witness:
  "command (request ''GET'' ''/static/site.css'' ''HTTP/1.1'') = ''GET''
   \<and> path (request ''GET'' ''/static/site.css'' ''HTTP/1.1'') \<noteq> ''/''
   \<and> os_path_isfile site (drop 1 (path (request ''GET'' ''/static/site.css'' ''HTTP/1.1'')))
   \<and> list_all plain_word [''static'', ''site.css'']
   \<and> path (request ''GET'' ''/static/site.css'' ''HTTP/1.1'') = plain_path [''static'', ''site.css'']
   \<and> os_stat site (drop 1 (path (request ''GET'' ''/static/site.css'' ''HTTP/1.1''))) = Some (File ''css'')
   \<and> rewrite_path site (request ''GET'' ''/static/site.css'' ''HTTP/1.1'') = request ''GET'' ''/static/site.css'' ''HTTP/1.1''
   \<and> wfile (do_GET site (request ''GET'' ''/static/site.css'' ''HTTP/1.1'')) =
       ''HTTP/1.0 200 OK'' @ CRLF
       @ ''Server: '' @ version_string site @ CRLF
       @ ''Date: '' @ date_time_string site @ CRLF
       @ ''Content-type: application/octet-stream'' @ CRLF
       @ ''Content-Length: 3'' @ CRLF
       @ ''Last-Modified: '' @ last_modified site ''/srv/app/static/site.css'' @ CRLF
       @ concat injected_lines @ CRLF
       @ ''css''
   \<and> wfile (do_GET site
         ((request ''GET'' ''/static/site.css'' ''HTTP/1.1'')\<lparr>if_modified_since := Some ''Wed, 04 Nov 2026 12:00:00 GMT''\<rparr>)) =
       ''HTTP/1.0 304 Not Modified'' @ CRLF
       @ ''Server: '' @ version_string site @ CRLF
       @ ''Date: '' @ date_time_string site @ CRLF
       @ concat injected_lines @ CRLF
   \<and> os_stat site (drop 1 (path (request ''GET'' ''/secret.key'' ''HTTP/1.1''))) = Some Unreadable
   \<and> wfile (do_GET site (request ''GET'' ''/secret.key'' ''HTTP/1.1'')) =
       ''HTTP/1.0 404 File not found'' @ CRLF
       @ ''Server: '' @ version_string site @ CRLF
       @ ''Date: '' @ date_time_string site @ CRLF
       @ ''Connection: close'' @ CRLF
       @ ''Content-Type: text/html;charset=utf-8'' @ CRLF
       @ ''Content-Length: 27'' @ CRLF
       @ concat injected_lines @ CRLF
       @ ''<html>File not found</html>''"
proof -
  let ?h = "request ''GET'' ''/static/site.css'' ''HTTP/1.1''"
  let ?c = "(request ''GET'' ''/static/site.css'' ''HTTP/1.1'')\<lparr>if_modified_since := Some ''Wed, 04 Nov 2026 12:00:00 GMT''\<rparr>"
  let ?s = "request ''GET'' ''/secret.key'' ''HTTP/1.1''"
  have pl: "[''static'', ''site.css''] \<noteq> [] \<and> list_all plain_word [''static'', ''site.css'']
            \<and> path ?h = plain_path [''static'', ''site.css'']
            \<and> path ?c = plain_path [''static'', ''site.css'']"
    by (simp add: plain_word_def plain_char_def py_isspace_def plain_path_def request_def)
  have pk: "[''secret.key''] \<noteq> [] \<and> list_all plain_word [''secret.key'']
            \<and> path ?s = plain_path [''secret.key'']"
    by (simp add: plain_word_def plain_char_def py_isspace_def plain_path_def request_def)
  have c: "command ?h = ''GET''" "command ?c = ''GET''" "command ?s = ''GET''"
    by (simp_all add: request_def)
  have p: "path ?h \<noteq> ''/''" "path ?c \<noteq> ''/''" "path ?s \<noteq> ''/''"
    by (simp_all add: request_def)
  have s: "os_stat site (drop 1 (path ?h)) = Some (File ''css'')"
    "os_stat site (drop 1 (path ?c)) = Some (File ''css'')"
    "os_stat site (drop 1 (path ?s)) = Some Unreadable"
    by (simp_all add: site_simps)
  then have f: "os_path_isfile site (drop 1 (path ?h))" "os_path_isfile site (drop 1 (path ?c))"
    "os_path_isfile site (drop 1 (path ?s))"
    by (simp_all add: os_path_isfile_def)
  have l: "length ''css'' = 3" "length (error_content site 404 ''File not found'') = 27"
    by (simp_all add: site_fields)
  have j: "os_path_join (getcwd site) (drop 1 (path ?h)) = ''/srv/app/static/site.css''"
    "os_path_join (getcwd site) (drop 1 (path ?c)) = ''/srv/app/static/site.css''"
    by (simp_all add: site_fields request_def os_path_join_def startswith_def endswith_def)
  note mh = existing_file_not_rewritten [OF c(1) p(1) f(1)]
  note mc = existing_file_not_rewritten [OF c(2) p(2) f(2)]
  note ms = existing_file_not_rewritten [OF c(3) p(3) f(3)]
  from mh have r: "rewrite_path site ?h = ?h" by blast
  from mh pl have th: "translate_path site (path ?h) = os_path_join (getcwd site) (drop 1 (path ?h))
      \<and> \<not> endswith (path ?h) CHR ''/''" by blast
  from mc pl have tc: "translate_path site (path ?c) = os_path_join (getcwd site) (drop 1 (path ?c))
      \<and> \<not> endswith (path ?c) CHR ''/''" by blast
  from ms pk have ts: "translate_path site (path ?s) = os_path_join (getcwd site) (drop 1 (path ?s))
      \<and> \<not> endswith (path ?s) CHR ''/''" by blast
  have nh: "\<not> not_modified site ?h (translate_path site (path ?h))"
    by (simp add: not_modified_def request_def)
  have nc: "not_modified site ?c (translate_path site (path ?c))"
    by (simp add: not_modified_def request_def site_fields)
  from mh th s(1) have "wfile (do_GET site ?h) =
      (if not_modified site ?h (translate_path site (path ?h))
       then
         wfile ?h @
         (if request_version ?h = ''HTTP/0.9'' then []
          else concat (headers_buffer ?h)
                 @ ''HTTP/1.0 304 Not Modified'' @ CRLF
                 @ ''Server: '' @ version_string site @ CRLF
                 @ ''Date: '' @ date_time_string site @ CRLF
                 @ concat injected_lines @ CRLF)
       else
         wfile ?h @
         (if request_version ?h = ''HTTP/0.9'' then []
          else concat (headers_buffer ?h)
                 @ ''HTTP/1.0 200 OK'' @ CRLF
                 @ ''Server: '' @ version_string site @ CRLF
                 @ ''Date: '' @ date_time_string site @ CRLF
                 @ ''Content-type: '' @ guess_type site (translate_path site (path ?h)) @ CRLF
                 @ ''Content-Length: '' @ str_nat (length ''css'') @ CRLF
                 @ ''Last-Modified: '' @ last_modified site (translate_path site (path ?h)) @ CRLF
                 @ concat injected_lines @ CRLF)
         @ ''css'')"
    by blast
  then have wh: "wfile (do_GET site ?h) =
       ''HTTP/1.0 200 OK'' @ CRLF
       @ ''Server: '' @ version_string site @ CRLF
       @ ''Date: '' @ date_time_string site @ CRLF
       @ ''Content-type: application/octet-stream'' @ CRLF
       @ ''Content-Length: 3'' @ CRLF
       @ ''Last-Modified: '' @ last_modified site ''/srv/app/static/site.css'' @ CRLF
       @ concat injected_lines @ CRLF
       @ ''css''"
    using nh th unfolding j l by (simp add: request_fields site_fields str_nat_small)
  from mc tc s(2) have "wfile (do_GET site ?c) =
      (if not_modified site ?c (translate_path site (path ?c))
       then
         wfile ?c @
         (if request_version ?c = ''HTTP/0.9'' then []
          else concat (headers_buffer ?c)
                 @ ''HTTP/1.0 304 Not Modified'' @ CRLF
                 @ ''Server: '' @ version_string site @ CRLF
                 @ ''Date: '' @ date_time_string site @ CRLF
                 @ concat injected_lines @ CRLF)
       else
         wfile ?c @
         (if request_version ?c = ''HTTP/0.9'' then []
          else concat (headers_buffer ?c)
                 @ ''HTTP/1.0 200 OK'' @ CRLF
                 @ ''Server: '' @ version_string site @ CRLF
                 @ ''Date: '' @ date_time_string site @ CRLF
                 @ ''Content-type: '' @ guess_type site (translate_path site (path ?c)) @ CRLF
                 @ ''Content-Length: '' @ str_nat (length ''css'') @ CRLF
                 @ ''Last-Modified: '' @ last_modified site (translate_path site (path ?c)) @ CRLF
                 @ concat injected_lines @ CRLF)
         @ ''css'')"
    by blast
  then have wc: "wfile (do_GET site ?c) =
       ''HTTP/1.0 304 Not Modified'' @ CRLF
       @ ''Server: '' @ version_string site @ CRLF
       @ ''Date: '' @ date_time_string site @ CRLF
       @ concat injected_lines @ CRLF"
    using nc by (simp add: request_def)
  from ms ts s(3) have "wfile (do_GET site ?s) =
      wfile ?s @
      (if request_version ?s = ''HTTP/0.9'' then []
       else concat (headers_buffer ?s)
              @ ''HTTP/1.0 404 File not found'' @ CRLF
              @ ''Server: '' @ version_string site @ CRLF
              @ ''Date: '' @ date_time_string site @ CRLF
              @ ''Connection: close'' @ CRLF
              @ ''Content-Type: text/html;charset=utf-8'' @ CRLF
              @ ''Content-Length: '' @ str_nat (length (error_content site 404 ''File not found'')) @ CRLF
              @ concat injected_lines @ CRLF)
      @ error_content site 404 ''File not found''"
    by blast
  then have ws: "wfile (do_GET site ?s) =
       ''HTTP/1.0 404 File not found'' @ CRLF
       @ ''Server: '' @ version_string site @ CRLF
       @ ''Date: '' @ date_time_string site @ CRLF
       @ ''Connection: close'' @ CRLF
       @ ''Content-Type: text/html;charset=utf-8'' @ CRLF
       @ ''Content-Length: 27'' @ CRLF
       @ concat injected_lines @ CRLF
       @ ''<html>File not found</html>''"
    unfolding l by (simp add: request_fields site_fields str_nat_small)
  from c p f pl s r wh wc ws show ?thesis by simp
qed

text \<open>
  Claim C3 as stated fails where the delegate translates the path to another name: the
  sample site has a regular file named \<open>report?id=7\<close> and none named \<open>report\<close>. The
  path \<open>/report?id=7\<close> is left unchanged, the delegate drops the query, looks for
  \<open>report\<close> and answers 404; the file's bytes are not served.
\<close>

theorem raw_name_served_elsewhere_counterexample:
  "path (request ''GET'' ''/report?id=7'' ''HTTP/1.1'') \<noteq> ''/''
   \<and> os_stat site (drop 1 (path (request ''GET'' ''/report?id=7'' ''HTTP/1.1'')))
       = Some (File ''csv'')
   \<and> rewrite_path site (request ''GET'' ''/report?id=7'' ''HTTP/1.1'')
       = request ''GET'' ''/report?id=7'' ''HTTP/1.1''
   \<and> wfile (do_GET site (request ''GET'' ''/report?id=7'' ''HTTP/1.1'')) =
       ''HTTP/1.0 404 File not found'' @ CRLF
       @ ''Server: '' @ version_string site @ CRLF
       @ ''Date: '' @ date_time_string site @ CRLF
       @ ''Connection: close'' @ CRLF
       @ ''Content-Type: text/html;charset=utf-8'' @ CRLF
       @ ''Content-Length: 27'' @ CRLF
       @ concat injected_lines @ CRLF
       @ ''<html>File not found</html>''"
proof -
  let ?h = "request ''GET'' ''/report?id=7'' ''HTTP/1.1''"
  have p: "path ?h \<noteq> ''/''" by (simp add: request_def)
  have f: "os_stat site (drop 1 (path ?h)) = Some (File ''csv'')"
    by (simp add: site_simps)
  have r: "rewrite_path site ?h = ?h"
    using p f by (simp add: rewrite_path_def os_path_exists_def)
  have t: "translate_path site (path ?h) = ''/srv/app/report''"
    by (simp add: site_simps translate_simps)
  have n: "os_stat site (translate_path site (path ?h)) = None"
    unfolding t by (simp add: site_simps)
  have l: "length (error_content site 404 ''File not found'') = 27"
    by (simp add: site_fields)
  have e: "do_GET site ?h = send_error end_headers site ?h 404 ''File not found''"
    using send_head_not_dir [OF not_dir_if_none [OF n]] n r
    by (simp add: do_GET_def super_do_GET_def send_head_file_missing)
  have w: "wfile (do_GET site ?h) =
       ''HTTP/1.0 404 File not found'' @ CRLF
       @ ''Server: '' @ version_string site @ CRLF
       @ ''Date: '' @ date_time_string site @ CRLF
       @ ''Connection: close'' @ CRLF
       @ ''Content-Type: text/html;charset=utf-8'' @ CRLF
       @ ''Content-Length: 27'' @ CRLF
       @ concat injected_lines @ CRLF
       @ ''<html>File not found</html>''"
    unfolding e send_error_404 l by (simp add: request_fields site_fields str_nat_small)
  from p f r w show ?thesis by simp
qed

subsection \<open>Requests for paths with nothing behind them\<close>

text \<open>
  Claim C7, as the code has it. For a GET request whose path is \<open>/\<close> or has nothing of
  any kind at the path without its first character, \<open>do_GET\<close> sets the path to
  \<open>/index.html\<close> without looking whether that file exists and hands over to the
  delegate, which translates it to \<open>index.html\<close> in the served directory. The response
  is the delegate's and depends on what is there. A regular file that can be read:
  its bytes behind a head with status 200 (no head for \<open>HTTP/0.9\<close>), or 304 and no body
  when the request is conditional and the file is not modified. Nothing, or a file
  that may not be read: the delegate's \<open>send_error(404, "File not found")\<close>. A
  directory: the delegate's redirect. The handler adds no error handling of its own.
\<close>

theorem nothing_there_falls_back_to_index:
  assumes "command h = ''GET''"
    and "path h = ''/'' \<or> os_stat env (drop 1 (path h)) = None"
  shows "rewrite_path env h = h\<lparr>path := ''/index.html''\<rparr>
    \<and> do_GET env h = super_do_GET end_headers env (h\<lparr>path := ''/index.html''\<rparr>)
    \<and> translate_path env ''/index.html'' = os_path_join (getcwd env) ''index.html''
    \<and> (\<forall>bytes. os_stat env ''index.html'' = Some (File bytes) \<longrightarrow>
          wfile (do_GET env h) =
            (if not_modified env h (os_path_join (getcwd env) ''index.html'')
             then
               wfile h @
               (if request_version h = ''HTTP/0.9'' then []
                else concat (headers_buffer h)
                       @ ''HTTP/1.0 304 Not Modified'' @ CRLF
                       @ ''Server: '' @ version_string env @ CRLF
                       @ ''Date: '' @ date_time_string env @ CRLF
                       @ concat injected_lines @ CRLF)
             else
               wfile h @
               (if request_version h = ''HTTP/0.9'' then []
                else concat (headers_buffer h)
                       @ ''HTTP/1.0 200 OK'' @ CRLF
                       @ ''Server: '' @ version_string env @ CRLF
                       @ ''Date: '' @ date_time_string env @ CRLF
                       @ ''Content-type: '' @ guess_type env (os_path_join (getcwd env) ''index.html'') @ CRLF
                       @ ''Content-Length: '' @ str_nat (length bytes) @ CRLF
                       @ ''Last-Modified: '' @ last_modified env (os_path_join (getcwd env) ''index.html'') @ CRLF
                       @ concat injected_lines @ CRLF)
               @ bytes))
    \<and> (os_stat env ''index.html'' = None \<or> os_stat env ''index.html'' = Some Unreadable \<longrightarrow>
          do_GET env h
            = send_error end_headers env (h\<lparr>path := ''/index.html''\<rparr>) 404 ''File not found''
          \<and> wfile (do_GET env h) =
            wfile h @
            (if request_version h = ''HTTP/0.9'' then []
             else concat (headers_buffer h)
                    @ ''HTTP/1.0 404 File not found'' @ CRLF
                    @ ''Server: '' @ version_string env @ CRLF
                    @ ''Date: '' @ date_time_string env @ CRLF
                    @ ''Connection: close'' @ CRLF
                    @ ''Content-Type: text/html;charset=utf-8'' @ CRLF
                    @ ''Content-Length: '' @ str_nat (length (error_content env 404 ''File not found'')) @ CRLF
                    @ concat injected_lines @ CRLF)
            @ error_content env 404 ''File not found'')
    \<and> (os_stat env ''index.html'' = Some Dir \<longrightarrow>
          wfile (do_GET env h) =
            wfile h @
            (if request_version h = ''HTTP/0.9'' then []
             else concat (headers_buffer h)
                    @ ''HTTP/1.0 301 Moved Permanently'' @ CRLF
                    @ ''Server: '' @ version_string env @ CRLF
                    @ ''Date: '' @ date_time_string env @ CRLF
                    @ ''Location: '' @ redirect_url env ''/index.html'' @ CRLF
                    @ ''Content-Length: 0'' @ CRLF
                    @ concat injected_lines @ CRLF))"
proof -
  let ?h = "h\<lparr>path := ''/index.html''\<rparr>"
  let ?p = "os_path_join (getcwd env) ''index.html''"
  have r: "rewrite_path env h = ?h"
    using assms(2) by (auto simp add: rewrite_path_def os_path_exists_def os_stat_def)
  then have d: "do_GET env h = super_do_GET end_headers env ?h"
    by (simp add: do_GET_def)
  have t: "translate_path env (path ?h) = ?p"
    by (simp add: translate_path_index)
  have o: "os_stat env ?p = os_stat env ''index.html''"
    by (simp add: os_stat_resolved)
  note n = index_not_slash [of "getcwd env"]
  have found: "wfile (super_do_GET end_headers env ?h) =
            (if not_modified env h (os_path_join (getcwd env) ''index.html'')
             then
               wfile h @
               (if request_version h = ''HTTP/0.9'' then []
                else concat (headers_buffer h)
                       @ ''HTTP/1.0 304 Not Modified'' @ CRLF
                       @ ''Server: '' @ version_string env @ CRLF
                       @ ''Date: '' @ date_time_string env @ CRLF
                       @ concat injected_lines @ CRLF)
             else
               wfile h @
               (if request_version h = ''HTTP/0.9'' then []
                else concat (headers_buffer h)
                       @ ''HTTP/1.0 200 OK'' @ CRLF
                       @ ''Server: '' @ version_string env @ CRLF
                       @ ''Date: '' @ date_time_string env @ CRLF
                       @ ''Content-type: '' @ guess_type env (os_path_join (getcwd env) ''index.html'') @ CRLF
                       @ ''Content-Length: '' @ str_nat (length bytes) @ CRLF
                       @ ''Last-Modified: '' @ last_modified env (os_path_join (getcwd env) ''index.html'') @ CRLF
                       @ concat injected_lines @ CRLF)
               @ bytes)"
    if "os_stat env ''index.html'' = Some (File bytes)" for bytes
  proof -
    have s: "os_stat env ?p = Some (File bytes)" using that o by simp
    then have "\<not> os_path_isdir env (translate_path env (path ?h))"
      using t by (simp add: os_path_isdir_def)
    note hd = send_head_not_dir [OF this]
    show ?thesis
    proof (cases "not_modified env ?h ?p")
      case True
      with hd t send_head_file_not_modified [OF s n True] show ?thesis
        by (simp add: super_do_GET_def)
    next
      case False
      with hd t send_head_file_found [OF s n False] show ?thesis
        by (simp add: super_do_GET_def)
    qed
  qed
  have missing: "super_do_GET end_headers env ?h
                 = send_error end_headers env ?h 404 ''File not found''"
    if "os_stat env ''index.html'' = None \<or> os_stat env ''index.html'' = Some Unreadable"
  proof -
    have s: "os_stat env ?p = None \<or> os_stat env ?p = Some Unreadable"
      using that o by simp
    then have "\<not> os_path_isdir env (translate_path env (path ?h))"
      using t by (auto simp add: os_path_isdir_def)
    from send_head_not_dir [OF this] t send_head_file_missing [OF s] show ?thesis
      by (simp add: super_do_GET_def)
  qed
  have missing_w: "wfile (send_error end_headers env ?h 404 ''File not found'') =
            wfile h @
            (if request_version h = ''HTTP/0.9'' then []
             else concat (headers_buffer h)
                    @ ''HTTP/1.0 404 File not found'' @ CRLF
                    @ ''Server: '' @ version_string env @ CRLF
                    @ ''Date: '' @ date_time_string env @ CRLF
                    @ ''Connection: close'' @ CRLF
                    @ ''Content-Type: text/html;charset=utf-8'' @ CRLF
                    @ ''Content-Length: '' @ str_nat (length (error_content env 404 ''File not found'')) @ CRLF
                    @ concat injected_lines @ CRLF)
            @ error_content env 404 ''File not found''"
    using assms(1) by (simp add: send_error_404)
  have dir: "wfile (super_do_GET end_headers env ?h) =
            wfile h @
            (if request_version h = ''HTTP/0.9'' then []
             else concat (headers_buffer h)
                    @ ''HTTP/1.0 301 Moved Permanently'' @ CRLF
                    @ ''Server: '' @ version_string env @ CRLF
                    @ ''Date: '' @ date_time_string env @ CRLF
                    @ ''Location: '' @ redirect_url env ''/index.html'' @ CRLF
                    @ ''Content-Length: 0'' @ CRLF
                    @ concat injected_lines @ CRLF)"
    if "os_stat env ''index.html'' = Some Dir"
  proof -
    have "os_path_isdir env (translate_path env (path ?h))"
      using that o t by (simp add: os_path_isdir_def)
    then have "super_do_GET end_headers env ?h =
        end_headers (send_header
                    (send_header (send_response env ?h 301 None)
                       ''Location'' (redirect_url env (path ?h)))
                    ''Content-Length'' ''0'')"
      by (simp add: super_do_GET_def send_head_def urlsplit_path_index endswith_def)
    then show ?thesis
      by (cases "request_version h = ''HTTP/0.9''")
         (simp_all add: end_headers_eq end_headers_09 send_header_def send_response_def
          send_response_only_def responses_def protocol_version_def str_nat_status)
  qed
  from r d found missing missing_w dir show ?thesis
    by (simp add: translate_path_index)
qed

text \<open>
  Witness for C7: \<open>/dashboard\<close> names nothing in the sample site, so the response is
  \<open>index.html\<close>.
\<close>

theorem nothing_there_falls_back_to_index_witness:
  "command (request ''GET'' ''/dashboard'' ''HTTP/1.1'') = ''GET''
   \<and> os_stat site (drop 1 (path (request ''GET'' ''/dashboard'' ''HTTP/1.1''))) = None
   \<and> os_stat site ''index.html'' = Some (File ''<html>'')
   \<and> rewrite_path site (request ''GET'' ''/dashboard'' ''HTTP/1.1'')
       = request ''GET'' ''/index.html'' ''HTTP/1.1''
   \<and> wfile (do_GET site (request ''GET'' ''/dashboard'' ''HTTP/1.1'')) =
       ''HTTP/1.0 200 OK'' @ CRLF
       @ ''Server: '' @ version_string site @ CRLF
       @ ''Date: '' @ date_time_string site @ CRLF
       @ ''Content-type: application/octet-stream'' @ CRLF
       @ ''Content-Length: 6'' @ CRLF
       @ ''Last-Modified: '' @ last_modified site ''/srv/app/index.html'' @ CRLF
       @ concat injected_lines @ CRLF
       @ ''<html>''"
proof -
  let ?h = "request ''GET'' ''/dashboard'' ''HTTP/1.1''"
  have c: "command ?h = ''GET''" by (simp add: request_def)
  have n: "os_stat site (drop 1 (path ?h)) = None"
    by (simp add: site_simps)
  then have n': "path ?h = ''/'' \<or> os_stat site (drop 1 (path ?h)) = None" by simp
  have i: "os_path_join (getcwd site) ''index.html'' = ''/srv/app/index.html''"
    by (simp add: site_fields os_path_join_def startswith_def endswith_def)
  have f: "os_stat site ''index.html'' = Some (File ''<html>'')"
    by (simp add: site_simps)
  have l: "length ''<html>'' = 6" by simp
  have nm: "\<not> not_modified site ?h (os_path_join (getcwd site) ''index.html'')"
    by (simp add: not_modified_def request_def)
  note main = nothing_there_falls_back_to_index [OF c n']
  from main have r: "rewrite_path site ?h = ?h\<lparr>path := ''/index.html''\<rparr>" by blast
  from main f have "wfile (do_GET site ?h) =
      (if not_modified site ?h (os_path_join (getcwd site) ''index.html'')
       then
         wfile ?h @
         (if request_version ?h = ''HTTP/0.9'' then []
          else concat (headers_buffer ?h)
                 @ ''HTTP/1.0 304 Not Modified'' @ CRLF
                 @ ''Server: '' @ version_string site @ CRLF
                 @ ''Date: '' @ date_time_string site @ CRLF
                 @ concat injected_lines @ CRLF)
       else
         wfile ?h @
         (if request_version ?h = ''HTTP/0.9'' then []
          else concat (headers_buffer ?h)
                 @ ''HTTP/1.0 200 OK'' @ CRLF
                 @ ''Server: '' @ version_string site @ CRLF
                 @ ''Date: '' @ date_time_string site @ CRLF
                 @ ''Content-type: '' @ guess_type site (os_path_join (getcwd site) ''index.html'') @ CRLF
                 @ ''Content-Length: '' @ str_nat (length ''<html>'') @ CRLF
                 @ ''Last-Modified: '' @ last_modified site (os_path_join (getcwd site) ''index.html'') @ CRLF
                 @ concat injected_lines @ CRLF)
         @ ''<html>'')"
    by blast
  then have w: "wfile (do_GET site ?h) =
       ''HTTP/1.0 200 OK'' @ CRLF
       @ ''Server: '' @ version_string site @ CRLF
       @ ''Date: '' @ date_time_string site @ CRLF
       @ ''Content-type: application/octet-stream'' @ CRLF
       @ ''Content-Length: 6'' @ CRLF
       @ ''Last-Modified: '' @ last_modified site ''/srv/app/index.html'' @ CRLF
       @ concat injected_lines @ CRLF
       @ ''<html>''"
    using nm unfolding i l by (simp add: request_fields site_fields str_nat_small)
  from c n f r w show ?thesis by (simp add: request_def)
qed

text \<open>
  Claim C7 as stated fails on a directory. No regular file is at \<open>static\<close> in the
  sample site, yet \<open>/static\<close> is not rewritten, because a directory is there; the
  response is the delegate's redirect to \<open>/static/\<close>, neither \<open>index.html\<close> nor 404.
\<close>

theorem directory_not_rewritten_counterexample:
  "os_stat site (drop 1 (path (request ''GET'' ''/static'' ''HTTP/1.1''))) = Some Dir
   \<and> \<not> os_path_isfile site (drop 1 (path (request ''GET'' ''/static'' ''HTTP/1.1'')))
   \<and> rewrite_path site (request ''GET'' ''/static'' ''HTTP/1.1'')
       = request ''GET'' ''/static'' ''HTTP/1.1''
   \<and> wfile (do_GET site (request ''GET'' ''/static'' ''HTTP/1.1'')) =
       ''HTTP/1.0 301 Moved Permanently'' @ CRLF
       @ ''Server: '' @ version_string site @ CRLF
       @ ''Date: '' @ date_time_string site @ CRLF
       @ ''Location: /static/'' @ CRLF
       @ ''Content-Length: 0'' @ CRLF
       @ concat injected_lines @ CRLF"
proof -
  let ?h = "request ''GET'' ''/static'' ''HTTP/1.1''"
  have d: "os_stat site (drop 1 (path ?h)) = Some Dir"
    by (simp add: site_simps)
  then have nf: "\<not> os_path_isfile site (drop 1 (path ?h))"
    by (simp add: os_path_isfile_def)
  have r: "rewrite_path site ?h = ?h"
    using d by (simp add: rewrite_path_def os_path_exists_def request_def)
  have t: "translate_path site (path ?h) = ''/srv/app/static''"
    by (simp add: site_simps translate_simps)
  have dd: "os_path_isdir site (translate_path site (path ?h))"
    unfolding t by (simp add: os_path_isdir_def site_simps)
  have u: "urlsplit_path site (path ?h) = ''/static''"
    by (simp add: urlsplit_path_def request_def startswith_def before_first_def)
  have v: "request_version ?h \<noteq> ''HTTP/0.9''" by (simp add: request_def)
  have "do_GET site ?h =
          end_headers (send_header
                    (send_header (send_response site ?h 301 None)
                       ''Location'' (redirect_url site (path ?h)))
                    ''Content-Length'' ''0'')"
    using dd u by (simp add: do_GET_def r super_do_GET_def send_head_def endswith_def)
  then have w: "wfile (do_GET site ?h) =
       ''HTTP/1.0 301 Moved Permanently'' @ CRLF
       @ ''Server: '' @ version_string site @ CRLF
       @ ''Date: '' @ date_time_string site @ CRLF
       @ ''Location: /static/'' @ CRLF
       @ ''Content-Length: 0'' @ CRLF
       @ concat injected_lines @ CRLF"
    using v
    by (simp add: end_headers_eq send_header_def send_response_def send_response_only_def
        responses_def protocol_version_def str_nat_status request_fields site_fields)
  from d nf r w show ?thesis by simp
qed

subsection \<open>Requests with a query string\<close>

text \<open>
  Claim C9, as the code has it. The existence test reads the raw request target, query
  string included. Take a GET request whose path is \<open>t\<close>, a \<open>?\<close> and a query, and whose
  target (the path as the delegate translates it, which is the translation of \<open>t\<close>
  alone) is an existing regular file. The test looks for a name with the \<open>?\<close> and the
  query in it. When the file system stores nothing under that name, the test fails
  although the target exists, the path becomes \<open>/index.html\<close>, and the response is the
  response to a request for \<open>/index.html\<close>: the bytes of \<open>index.html\<close> when that is a
  readable regular file (304 when the request is conditional and the file is not
  modified), whatever the target holds. The same request without the query string, when
  \<open>t\<close> is a plain path, is answered with the target.
\<close>

theorem query_string_defeats_existence_check:
  assumes "command h = ''GET''"
    and "t \<noteq> []" and "CHR ''?'' \<notin> set t"
    and "path h = t @ ''?'' @ query"
    and "os_stat env (translate_path env (path h)) = Some (File target)"
    and "fs env (os_path_join (getcwd env) (drop 1 t @ ''?'' @ query)) = None"
  shows "translate_path env (path h) = translate_path env t
    \<and> \<not> os_path_exists env (drop 1 (path h))
    \<and> rewrite_path env h = h\<lparr>path := ''/index.html''\<rparr>
    \<and> do_GET env h = do_GET env (h\<lparr>path := ''/index.html''\<rparr>)
    \<and> (\<forall>bytes. os_stat env ''index.html'' = Some (File bytes) \<longrightarrow>
          wfile (do_GET env h) =
            (if not_modified env h (os_path_join (getcwd env) ''index.html'')
             then
               wfile h @
               (if request_version h = ''HTTP/0.9'' then []
                else concat (headers_buffer h)
                       @ ''HTTP/1.0 304 Not Modified'' @ CRLF
                       @ ''Server: '' @ version_string env @ CRLF
                       @ ''Date: '' @ date_time_string env @ CRLF
                       @ concat injected_lines @ CRLF)
             else
               wfile h @
               (if request_version h = ''HTTP/0.9'' then []
                else concat (headers_buffer h)
                       @ ''HTTP/1.0 200 OK'' @ CRLF
                       @ ''Server: '' @ version_string env @ CRLF
                       @ ''Date: '' @ date_time_string env @ CRLF
                       @ ''Content-type: '' @ guess_type env (os_path_join (getcwd env) ''index.html'') @ CRLF
                       @ ''Content-Length: '' @ str_nat (length bytes) @ CRLF
                       @ ''Last-Modified: '' @ last_modified env (os_path_join (getcwd env) ''index.html'') @ CRLF
                       @ concat injected_lines @ CRLF)
               @ bytes))
    \<and> (\<forall>ws. ws \<noteq> [] \<and> list_all plain_word ws \<and> t = plain_path ws \<longrightarrow>
          wfile (do_GET env (h\<lparr>path := t\<rparr>)) =
            (if not_modified env h (translate_path env t)
             then
               wfile h @
               (if request_version h = ''HTTP/0.9'' then []
                else concat (headers_buffer h)
                       @ ''HTTP/1.0 304 Not Modified'' @ CRLF
                       @ ''Server: '' @ version_string env @ CRLF
                       @ ''Date: '' @ date_time_string env @ CRLF
                       @ concat injected_lines @ CRLF)
             else
               wfile h @
               (if request_version h = ''HTTP/0.9'' then []
                else concat (headers_buffer h)
                       @ ''HTTP/1.0 200 OK'' @ CRLF
                       @ ''Server: '' @ version_string env @ CRLF
                       @ ''Date: '' @ date_time_string env @ CRLF
                       @ ''Content-type: '' @ guess_type env (translate_path env t) @ CRLF
                       @ ''Content-Length: '' @ str_nat (length target) @ CRLF
                       @ ''Last-Modified: '' @ last_modified env (translate_path env t) @ CRLF
                       @ concat injected_lines @ CRLF)
               @ target))"
proof -
  let ?i = "h\<lparr>path := ''/index.html''\<rparr>"
  let ?p = "os_path_join (getcwd env) ''index.html''"
  have tq: "translate_path env (path h) = translate_path env t"
    using assms(3,4) translate_path_query [of t env query] by simp
  have dr: "drop 1 (path h) = drop 1 t @ ''?'' @ query"
    using assms(2,4) by (cases t) simp_all
  have "os_stat env (drop 1 (path h)) = None"
    unfolding dr using assms(6) by (simp add: os_stat_def)
  then have ne: "\<not> os_path_exists env (drop 1 (path h))"
    by (simp add: os_path_exists_def)
  then have r: "rewrite_path env h = ?i"
    by (simp add: rewrite_path_def)
  then have d: "do_GET env h = do_GET env ?i"
    by (simp add: do_GET_def rewrite_path_index_idem)
  have ix: "wfile (do_GET env h) =
            (if not_modified env h (os_path_join (getcwd env) ''index.html'')
             then
               wfile h @
               (if request_version h = ''HTTP/0.9'' then []
                else concat (headers_buffer h)
                       @ ''HTTP/1.0 304 Not Modified'' @ CRLF
                       @ ''Server: '' @ version_string env @ CRLF
                       @ ''Date: '' @ date_time_string env @ CRLF
                       @ concat injected_lines @ CRLF)
             else
               wfile h @
               (if request_version h = ''HTTP/0.9'' then []
                else concat (headers_buffer h)
                       @ ''HTTP/1.0 200 OK'' @ CRLF
                       @ ''Server: '' @ version_string env @ CRLF
                       @ ''Date: '' @ date_time_string env @ CRLF
                       @ ''Content-type: '' @ guess_type env (os_path_join (getcwd env) ''index.html'') @ CRLF
                       @ ''Content-Length: '' @ str_nat (length bytes) @ CRLF
                       @ ''Last-Modified: '' @ last_modified env (os_path_join (getcwd env) ''index.html'') @ CRLF
                       @ concat injected_lines @ CRLF)
               @ bytes)"
    if "os_stat env ''index.html'' = Some (File bytes)" for bytes
  proof -
    have t: "translate_path env (path ?i) = ?p"
      by (simp add: translate_path_index)
    have s: "os_stat env (translate_path env (path ?i)) = Some (File bytes)"
      using that t by (simp add: os_stat_resolved)
    have n: "\<not> endswith (translate_path env (path ?i)) CHR ''/''"
      using t index_not_slash [of "getcwd env"] by simp
    from super_do_GET_regular [OF s n] t r show ?thesis
      by (simp add: do_GET_def)
  qed
  have tg: "wfile (do_GET env (h\<lparr>path := t\<rparr>)) =
            (if not_modified env h (translate_path env t)
             then
               wfile h @
               (if request_version h = ''HTTP/0.9'' then []
                else concat (headers_buffer h)
                       @ ''HTTP/1.0 304 Not Modified'' @ CRLF
                       @ ''Server: '' @ version_string env @ CRLF
                       @ ''Date: '' @ date_time_string env @ CRLF
                       @ concat injected_lines @ CRLF)
             else
               wfile h @
               (if request_version h = ''HTTP/0.9'' then []
                else concat (headers_buffer h)
                       @ ''HTTP/1.0 200 OK'' @ CRLF
                       @ ''Server: '' @ version_string env @ CRLF
                       @ ''Date: '' @ date_time_string env @ CRLF
                       @ ''Content-type: '' @ guess_type env (translate_path env t) @ CRLF
                       @ ''Content-Length: '' @ str_nat (length target) @ CRLF
                       @ ''Last-Modified: '' @ last_modified env (translate_path env t) @ CRLF
                       @ concat injected_lines @ CRLF)
               @ target)"
    if "ws \<noteq> []" and "list_all plain_word ws" and "t = plain_path ws" for ws
  proof -
    let ?g = "h\<lparr>path := t\<rparr>"
    have jn: "join_slash ws \<noteq> []" using that(1,2) by (rule join_slash_not_Nil)
    have tt: "translate_path env t = os_path_join (getcwd env) (join_slash ws)"
      using translate_path_plain [OF that(1,2), of env] that(3) by simp
    have st: "os_stat env (translate_path env (path ?g)) = Some (File target)"
      using assms(5) tq by simp
    then have "os_stat env (join_slash ws) = Some (File target)"
      using tt os_stat_resolved [OF jn, of env] by simp
    then have ex: "os_path_exists env (drop 1 (path ?g))"
      using that(3) by (simp add: os_path_exists_def drop_plain_path)
    have "t \<noteq> ''/''" using that(3) jn by (simp add: plain_path_def)
    with ex have rk: "rewrite_path env ?g = ?g"
      by (simp add: rewrite_path_def)
    have "last (plain_path ws) = last (join_slash ws)"
      using jn by (simp add: plain_path_def)
    then have "\<not> endswith (join_slash ws) CHR ''/''"
      using plain_path_last(1) [OF that(1,2)] by (simp add: endswith_def)
    then have n: "\<not> endswith (translate_path env (path ?g)) CHR ''/''"
      using tt endswith_join [OF jn, of "getcwd env" "CHR ''/''"] by simp
    from super_do_GET_regular [OF st n] rk show ?thesis
      by (simp add: do_GET_def)
  qed
  from tq ne r d ix tg show ?thesis by simp
qed

text \<open>
  Witness for C9: \<open>/app.js?v=3\<close> in the sample site. The target \<open>app.js\<close> exists,
  nothing is named \<open>app.js?v=3\<close>, the path becomes \<open>/index.html\<close> and the bytes of
  \<open>index.html\<close> are served; \<open>/app.js\<close> without the query is answered with \<open>app.js\<close>.
\<close>

theorem query_string_defeats_existence_check_witness:
  "command (request ''GET'' ''/app.js?v=3'' ''HTTP/1.1'') = ''GET''
   \<and> path (request ''GET'' ''/app.js?v=3'' ''HTTP/1.1'') = ''/app.js'' @ ''?'' @ ''v=3''
   \<and> CHR ''?'' \<notin> set ''/app.js''
   \<and> os_stat site (translate_path site (path (request ''GET'' ''/app.js?v=3'' ''HTTP/1.1'')))
       = Some (File ''js'')
   \<and> fs site (os_path_join (getcwd site) (drop 1 ''/app.js'' @ ''?'' @ ''v=3'')) = None
   \<and> os_stat site ''index.html'' = Some (File ''<html>'')
   \<and> ''/app.js'' = plain_path [''app.js''] \<and> list_all plain_word [''app.js'']
   \<and> \<not> os_path_exists site (drop 1 (path (request ''GET'' ''/app.js?v=3'' ''HTTP/1.1'')))
   \<and> rewrite_path site (request ''GET'' ''/app.js?v=3'' ''HTTP/1.1'')
       = request ''GET'' ''/index.html'' ''HTTP/1.1''
   \<and> wfile (do_GET site (request ''GET'' ''/app.js?v=3'' ''HTTP/1.1'')) =
       ''HTTP/1.0 200 OK'' @ CRLF
       @ ''Server: '' @ version_string site @ CRLF
       @ ''Date: '' @ date_time_string site @ CRLF
       @ ''Content-type: application/octet-stream'' @ CRLF
       @ ''Content-Length: 6'' @ CRLF
       @ ''Last-Modified: '' @ last_modified site ''/srv/app/index.html'' @ CRLF
       @ concat injected_lines @ CRLF
       @ ''<html>''
   \<and> wfile (do_GET site (request ''GET'' ''/app.js'' ''HTTP/1.1'')) =
       ''HTTP/1.0 200 OK'' @ CRLF
       @ ''Server: '' @ version_string site @ CRLF
       @ ''Date: '' @ date_time_string site @ CRLF
       @ ''Content-type: application/octet-stream'' @ CRLF
       @ ''Content-Length: 2'' @ CRLF
       @ ''Last-Modified: '' @ last_modified site ''/srv/app/app.js'' @ CRLF
       @ concat injected_lines @ CRLF
       @ ''js''"
proof -
  let ?h = "request ''GET'' ''/app.js?v=3'' ''HTTP/1.1''"
  have c: "command ?h = ''GET''" by (simp add: request_def)
  have tn: "''/app.js'' \<noteq> []" and q: "CHR ''?'' \<notin> set ''/app.js''" by simp_all
  have p: "path ?h = ''/app.js'' @ ''?'' @ ''v=3''" by (simp add: request_def)
  have t: "translate_path site (path ?h) = ''/srv/app/app.js''"
    "translate_path site ''/app.js'' = ''/srv/app/app.js''"
    by (simp_all add: site_simps translate_simps)
  have f: "os_stat site (translate_path site (path ?h)) = Some (File ''js'')"
    unfolding t by (simp add: site_simps)
  have n: "fs site (os_path_join (getcwd site) (drop 1 ''/app.js'' @ ''?'' @ ''v=3'')) = None"
    by (simp add: site_simps)
  have i: "os_stat site ''index.html'' = Some (File ''<html>'')"
    by (simp add: site_simps)
  have pl: "[''app.js''] \<noteq> [] \<and> list_all plain_word [''app.js'']
            \<and> ''/app.js'' = plain_path [''app.js'']"
    by (simp add: plain_word_def plain_char_def py_isspace_def plain_path_def)
  have j: "os_path_join (getcwd site) ''index.html'' = ''/srv/app/index.html''"
    by (simp add: site_fields os_path_join_def startswith_def endswith_def)
  have l: "length ''<html>'' = 6" "length ''js'' = 2" by simp_all
  have nm: "\<not> not_modified site ?h (os_path_join (getcwd site) ''index.html'')"
    "\<not> not_modified site ?h (translate_path site ''/app.js'')"
    by (simp_all add: not_modified_def request_def)
  have g: "?h\<lparr>path := ''/app.js''\<rparr> = request ''GET'' ''/app.js'' ''HTTP/1.1''"
    by (simp add: request_def)
  note main = query_string_defeats_existence_check [OF c tn q p f n]
  from main have e: "\<not> os_path_exists site (drop 1 (path ?h))" by blast
  from main have r: "rewrite_path site ?h = ?h\<lparr>path := ''/index.html''\<rparr>" by blast
  from main i have "wfile (do_GET site ?h) =
      (if not_modified site ?h (os_path_join (getcwd site) ''index.html'')
       then
         wfile ?h @
         (if request_version ?h = ''HTTP/0.9'' then []
          else concat (headers_buffer ?h)
                 @ ''HTTP/1.0 304 Not Modified'' @ CRLF
                 @ ''Server: '' @ version_string site @ CRLF
                 @ ''Date: '' @ date_time_string site @ CRLF
                 @ concat injected_lines @ CRLF)
       else
         wfile ?h @
         (if request_version ?h = ''HTTP/0.9'' then []
          else concat (headers_buffer ?h)
                 @ ''HTTP/1.0 200 OK'' @ CRLF
                 @ ''Server: '' @ version_string site @ CRLF
                 @ ''Date: '' @ date_time_string site @ CRLF
                 @ ''Content-type: '' @ guess_type site (os_path_join (getcwd site) ''index.html'') @ CRLF
                 @ ''Content-Length: '' @ str_nat (length ''<html>'') @ CRLF
                 @ ''Last-Modified: '' @ last_modified site (os_path_join (getcwd site) ''index.html'') @ CRLF
                 @ concat injected_lines @ CRLF)
         @ ''<html>'')"
    by blast
  then have w: "wfile (do_GET site ?h) =
       ''HTTP/1.0 200 OK'' @ CRLF
       @ ''Server: '' @ version_string site @ CRLF
       @ ''Date: '' @ date_time_string site @ CRLF
       @ ''Content-type: application/octet-stream'' @ CRLF
       @ ''Content-Length: 6'' @ CRLF
       @ ''Last-Modified: '' @ last_modified site ''/srv/app/index.html'' @ CRLF
       @ concat injected_lines @ CRLF
       @ ''<html>''"
    using nm(1) unfolding j l by (simp add: request_fields site_fields str_nat_small)
  from main pl have "wfile (do_GET site (?h\<lparr>path := ''/app.js''\<rparr>)) =
      (if not_modified site ?h (translate_path site ''/app.js'')
       then
         wfile ?h @
         (if request_version ?h = ''HTTP/0.9'' then []
          else concat (headers_buffer ?h)
                 @ ''HTTP/1.0 304 Not Modified'' @ CRLF
                 @ ''Server: '' @ version_string site @ CRLF
                 @ ''Date: '' @ date_time_string site @ CRLF
                 @ concat injected_lines @ CRLF)
       else
         wfile ?h @
         (if request_version ?h = ''HTTP/0.9'' then []
          else concat (headers_buffer ?h)
                 @ ''HTTP/1.0 200 OK'' @ CRLF
                 @ ''Server: '' @ version_string site @ CRLF
                 @ ''Date: '' @ date_time_string site @ CRLF
                 @ ''Content-type: '' @ guess_type site (translate_path site ''/app.js'') @ CRLF
                 @ ''Content-Length: '' @ str_nat (length ''js'') @ CRLF
                 @ ''Last-Modified: '' @ last_modified site (translate_path site ''/app.js'') @ CRLF
                 @ concat injected_lines @ CRLF)
         @ ''js'')"
    by blast
  then have v: "wfile (do_GET site (request ''GET'' ''/app.js'' ''HTTP/1.1'')) =
       ''HTTP/1.0 200 OK'' @ CRLF
       @ ''Server: '' @ version_string site @ CRLF
       @ ''Date: '' @ date_time_string site @ CRLF
       @ ''Content-type: application/octet-stream'' @ CRLF
       @ ''Content-Length: 2'' @ CRLF
       @ ''Last-Modified: '' @ last_modified site ''/srv/app/app.js'' @ CRLF
       @ concat injected_lines @ CRLF
       @ ''js''"
    using nm(2) unfolding g t l by (simp add: request_fields site_fields str_nat_small)
  from c p q f n i pl e r w v show ?thesis by (simp add: request_def)
qed

text \<open>
  Claim C9 as stated fails when something is stored under the raw name. The sample site
  holds both \<open>app.js\<close> and a file named \<open>app.js?v=2\<close>: for \<open>/app.js?v=2\<close> the test
  succeeds, the path is kept, and the delegate, which drops the query, serves
  \<open>app.js\<close>.
\<close>

theorem query_string_file_exists_counterexample:
  "CHR ''?'' \<in> set (path (request ''GET'' ''/app.js?v=2'' ''HTTP/1.1''))
   \<and> os_stat site (translate_path site (path (request ''GET'' ''/app.js?v=2'' ''HTTP/1.1'')))
       = Some (File ''js'')
   \<and> os_path_exists site (drop 1 (path (request ''GET'' ''/app.js?v=2'' ''HTTP/1.1'')))
   \<and> rewrite_path site (request ''GET'' ''/app.js?v=2'' ''HTTP/1.1'')
       = request ''GET'' ''/app.js?v=2'' ''HTTP/1.1''
   \<and> wfile (do_GET site (request ''GET'' ''/app.js?v=2'' ''HTTP/1.1'')) =
       ''HTTP/1.0 200 OK'' @ CRLF
       @ ''Server: '' @ version_string site @ CRLF
       @ ''Date: '' @ date_time_string site @ CRLF
       @ ''Content-type: application/octet-stream'' @ CRLF
       @ ''Content-Length: 2'' @ CRLF
       @ ''Last-Modified: '' @ last_modified site ''/srv/app/app.js'' @ CRLF
       @ concat injected_lines @ CRLF
       @ ''js''"
proof -
  let ?h = "request ''GET'' ''/app.js?v=2'' ''HTTP/1.1''"
  have q: "CHR ''?'' \<in> set (path ?h)" by (simp add: request_def)
  have t: "translate_path site (path ?h) = ''/srv/app/app.js''"
    by (simp add: site_simps translate_simps)
  have f: "os_stat site (translate_path site (path ?h)) = Some (File ''js'')"
    unfolding t by (simp add: site_simps)
  have e: "os_path_exists site (drop 1 (path ?h))"
    by (simp add: os_path_exists_def site_simps)
  have r: "rewrite_path site ?h = ?h"
    using e by (simp add: rewrite_path_def request_def)
  have s: "\<not> endswith (translate_path site (path ?h)) CHR ''/''"
    unfolding t by (simp add: endswith_def)
  have l: "length ''js'' = 2" by simp
  have nm: "\<not> not_modified site ?h (translate_path site (path ?h))"
    by (simp add: not_modified_def request_def)
  have "wfile (do_GET site ?h) =
      (if not_modified site ?h (translate_path site (path ?h))
       then
         wfile ?h @
         (if request_version ?h = ''HTTP/0.9'' then []
          else concat (headers_buffer ?h)
                 @ ''HTTP/1.0 304 Not Modified'' @ CRLF
                 @ ''Server: '' @ version_string site @ CRLF
                 @ ''Date: '' @ date_time_string site @ CRLF
                 @ concat injected_lines @ CRLF)
       else
         wfile ?h @
         (if request_version ?h = ''HTTP/0.9'' then []
          else concat (headers_buffer ?h)
                 @ ''HTTP/1.0 200 OK'' @ CRLF
                 @ ''Server: '' @ version_string site @ CRLF
                 @ ''Date: '' @ date_time_string site @ CRLF
                 @ ''Content-type: '' @ guess_type site (translate_path site (path ?h)) @ CRLF
                 @ ''Content-Length: '' @ str_nat (length ''js'') @ CRLF
                 @ ''Last-Modified: '' @ last_modified site (translate_path site (path ?h)) @ CRLF
                 @ concat injected_lines @ CRLF)
         @ ''js'')"
    using super_do_GET_regular [OF f s] r by (simp add: do_GET_def)
  then have w: "wfile (do_GET site ?h) =
       ''HTTP/1.0 200 OK'' @ CRLF
       @ ''Server: '' @ version_string site @ CRLF
       @ ''Date: '' @ date_time_string site @ CRLF
       @ ''Content-type: application/octet-stream'' @ CRLF
       @ ''Content-Length: 2'' @ CRLF
       @ ''Last-Modified: '' @ last_modified site ''/srv/app/app.js'' @ CRLF
       @ concat injected_lines @ CRLF
       @ ''js''"
    using nm unfolding t l by (simp add: request_fields site_fields str_nat_small)
  from q f e r w show ?thesis by simp
qed

subsection \<open>Requests that are not GET\<close>




subsection \<open>Start-up\<close>

text \<open>
  Claim C4, as the code has it. Without a first argument the port is 8000. With a first
  argument that \<open>int()\<close> accepts, the port is its value and \<open>main\<close> runs with it; what
  the server then listens on depends on the value. For a value outside 0 to 65535,
  binding raises \<open>OverflowError\<close>, which no \<open>except\<close> clause of \<open>main\<close> catches: nothing
  is printed by the program and no server runs. For a value from 0 to 65535 that the
  system does not refuse, the banner is printed and the server listens on that port,
  except that for the value 0 it listens on a port of the system's choice. With a first
  argument that \<open>int()\<close> rejects, the warning is printed first, the port is 8000 and
  \<open>main\<close> runs with 8000; when the system does not refuse port 8000, the server listens
  on port 8000 (as long as \<open>serve_forever\<close> runs).
\<close>

theorem port_from_command_line:
  "(length argv \<le> 1 \<longrightarrow>
      select_port w argv = ([], 8000) \<and> script w argv = main w 8000)
   \<and> (\<forall>n. 1 < length argv \<and> py_int w (argv ! 1) = Some n \<longrightarrow>
      select_port w argv = ([], n) \<and> script w argv = main w n
      \<and> (n < 0 \<or> 65535 < n \<longrightarrow> script w argv = ([], Unhandled OverflowError))
      \<and> (0 \<le> n \<and> n \<le> 65535 \<and> bind_refused w (nat n) = None \<and> serve_forever w = None \<longrightarrow>
           script w argv
             = (banner n, Serving (if n = 0 then ephemeral_port w else nat n))))
   \<and> (1 < length argv \<and> py_int w (argv ! 1) = None \<longrightarrow>
      select_port w argv
        = ([cross_mark @ '' Invalid port number. Using default port 8000.''], 8000)
      \<and> script w argv
        = ((cross_mark @ '' Invalid port number. Using default port 8000.'')
             # fst (main w 8000),
           snd (main w 8000)))
   \<and> (bind_refused w 8000 = None \<and> serve_forever w = None \<longrightarrow>
      main w 8000 = (banner 8000, Serving 8000))"
proof -
  have a: "select_port w argv = ([], 8000) \<and> script w argv = main w 8000"
    if "length argv \<le> 1"
    using that by (simp add: select_port_def script_def)
  have b: "select_port w argv = ([], n) \<and> script w argv = main w n"
    if "1 < length argv" and "py_int w (argv ! 1) = Some n" for n
    using that by (simp add: select_port_def script_def)
  have c: "main w n = ([], Unhandled OverflowError)" if "n < 0 \<or> 65535 < n" for n
    using that by (auto simp add: main_def server_bind_def except_clauses_def)
  have d: "main w n = (banner n, Serving (if n = 0 then ephemeral_port w else nat n))"
    if "0 \<le> n" and "n \<le> 65535" and "bind_refused w (nat n) = None"
      and "serve_forever w = None" for n
    using that by (simp add: main_def server_bind_def listening_port_def)
  have e: "select_port w argv
             = ([cross_mark @ '' Invalid port number. Using default port 8000.''], 8000)
           \<and> script w argv
             = ((cross_mark @ '' Invalid port number. Using default port 8000.'')
                  # fst (main w 8000),
                snd (main w 8000))"
    if "1 < length argv" and "py_int w (argv ! 1) = None"
    using that by (simp add: select_port_def script_def split: prod.splits)
  have f: "main w 8000 = (banner 8000, Serving 8000)"
    if "bind_refused w 8000 = None" and "serve_forever w = None"
    using d [of 8000] that by simp
  from a b c d e f show ?thesis by simp
qed

lemma py_int_samples:
  "py_int undisturbed ''8080'' = Some 8080"
  "py_int undisturbed ''0'' = Some 0"
  "py_int undisturbed ''-1'' = Some (- 1)"
  "py_int undisturbed ''70000'' = Some 70000"
  by (simp_all add: undisturbed_def py_int_def int_ascii_def c_isspace_def is_digit_def
      digits_value_def startswith_def Let_def)

lemma py_int_abc: "py_int w ''abc'' = None"
  by (simp add: py_int_def int_ascii_def c_isspace_def is_digit_def digits_value_def
      startswith_def Let_def)

lemma undisturbed_fields:
  "bind_refused undisturbed p = None"
  "serve_forever undisturbed = None"
  "ephemeral_port undisturbed = 49152"
  by (simp_all add: undisturbed_def)

text \<open>
  Witness for C4, where no port is refused and nobody stops the server: no argument,
  the arguments \<open>8080\<close>, \<open>0\<close> and \<open>-1\<close>, and the argument \<open>abc\<close>.
\<close>

theorem port_from_command_line_witness:
  "script undisturbed [''server.py''] = (banner 8000, Serving 8000)
   \<and> py_int undisturbed ''8080'' = Some 8080
   \<and> select_port undisturbed [''server.py'', ''8080''] = ([], 8080)
   \<and> script undisturbed [''server.py'', ''8080''] = (banner 8080, Serving 8080)
   \<and> py_int undisturbed ''0'' = Some 0
   \<and> script undisturbed [''server.py'', ''0''] = (banner 0, Serving 49152)
   \<and> py_int undisturbed ''-1'' = Some (- 1)
   \<and> script undisturbed [''server.py'', ''-1''] = ([], Unhandled OverflowError)
   \<and> py_int undisturbed ''abc'' = None
   \<and> select_port undisturbed [''server.py'', ''abc'']
       = ([cross_mark @ '' Invalid port number. Using default port 8000.''], 8000)
   \<and> script undisturbed [''server.py'', ''abc'']
       = ((cross_mark @ '' Invalid port number. Using default port 8000.'') # banner 8000,
          Serving 8000)"
proof -
  have l: "length [''server.py''] \<le> 1" "1 < length [''server.py'', x]" for x :: string
    by simp_all
  have i: "[''server.py'', x] ! 1 = x" for x :: string by simp
  note f = undisturbed_fields
  from port_from_command_line [of "[''server.py'']" undisturbed] l(1) f
  have a: "script undisturbed [''server.py''] = (banner 8000, Serving 8000)"
    by metis
  from port_from_command_line [of "[''server.py'', ''8080'']" undisturbed]
  have b: "select_port undisturbed [''server.py'', ''8080''] = ([], 8080)
           \<and> script undisturbed [''server.py'', ''8080''] = (banner 8080, Serving 8080)"
    unfolding i using l(2) py_int_samples(1) f by auto
  from port_from_command_line [of "[''server.py'', ''0'']" undisturbed]
  have c: "script undisturbed [''server.py'', ''0''] = (banner 0, Serving 49152)"
    unfolding i using l(2) py_int_samples(2) f by auto
  from port_from_command_line [of "[''server.py'', ''-1'']" undisturbed]
  have d: "script undisturbed [''server.py'', ''-1''] = ([], Unhandled OverflowError)"
    unfolding i using l(2) py_int_samples(3) by auto
  from port_from_command_line [of "[''server.py'', ''abc'']" undisturbed]
  have e: "select_port undisturbed [''server.py'', ''abc'']
             = ([cross_mark @ '' Invalid port number. Using default port 8000.''], 8000)
           \<and> script undisturbed [''server.py'', ''abc'']
             = ((cross_mark @ '' Invalid port number. Using default port 8000.'') # banner 8000,
                Serving 8000)"
    unfolding i using l(2) py_int_abc [of undisturbed] f by auto
  from a b c d e py_int_samples py_int_abc [of undisturbed] show ?thesis by simp
qed

text \<open>
  Claim C4 as stated fails for an integer that is no port number. The argument \<open>70000\<close>
  parses as an integer, so no warning is printed and \<open>main\<close> runs with 70000; binding
  raises \<open>OverflowError\<close>, which \<open>main\<close> does not catch, and the server listens on no
  port.
\<close>

theorem port_out_of_range_counterexample:
  "py_int undisturbed ''70000'' = Some 70000
   \<and> select_port undisturbed [''server.py'', ''70000''] = ([], 70000)
   \<and> script undisturbed [''server.py'', ''70000''] = ([], Unhandled OverflowError)"
  by (simp add: py_int_samples select_port_def script_def main_def server_bind_def
      except_clauses_def)

subsection \<open>Bind failures and shutdown\<close>

lemma str_int_ports: "str_int 8000 = ''8000''" "str_int 8001 = ''8001''" "str_int 98 = ''98''"
  by (simp_all add: str_int_def str_nat.simps digit_char_def)

text \<open>
  Claim C5 does not hold of the code on every system. The \<open>except\<close> clause recognises
  a taken port by \<open>e.errno == 48\<close>, which is \<open>EADDRINUSE\<close> on macOS and the BSDs. Linux
  reports a taken port with errno 98 (and Windows with 10048): there the process prints
  the general message, which names neither the port nor the next one, and exits with
  status 1.
\<close>

theorem port_taken_on_linux:
  "main port_taken_linux 8000
   = ([cross_mark @ '' Error starting server: [Errno 98] Address already in use''], Exited 1)"
  by (simp add: main_def server_bind_def except_clauses_def port_taken_linux_def
      str_OSError_def str_int_ports)

text \<open>Where the taken port is reported with errno 48, the message of the claim is printed.\<close>

lemma port_taken_on_macos:
  "main port_taken_macos 8000
   = ([cross_mark @ '' Port 8000 is already in use. Try a different port.'',
       light_bulb @ '' You can specify a different port: python3 server.py 8001''], Exited 1)"
  by (simp add: main_def server_bind_def except_clauses_def port_taken_macos_def str_int_ports)

text \<open>
  Claim C6. When the server is bound and \<open>serve_forever\<close> ends in
  \<open>KeyboardInterrupt\<close>, the process prints the shutdown message last and exits with
  status 0. When binding raises an \<open>OSError\<close>, whatever its errno, the process prints a
  diagnostic (the port message for errno 48, the error itself otherwise) and exits with
  status 1.
\<close>

theorem exit_codes:
  "(server_bind w PORT = None \<and> serve_forever w = Some KeyboardInterrupt \<longrightarrow>
      main w PORT
        = (banner PORT @ [CHR 0x0A # stop_sign @ '' Server stopped by user''], Exited 0))
   \<and> (\<forall>errno strerror. server_bind w PORT = Some (OSError errno strerror) \<longrightarrow>
      main w PORT
        = (if errno = 48
           then [cross_mark @ '' Port '' @ str_int PORT
                   @ '' is already in use. Try a different port.'',
                 light_bulb @ '' You can specify a different port: python3 server.py ''
                   @ str_int (PORT + 1)]
           else [cross_mark @ '' Error starting server: '' @ str_OSError errno strerror],
           Exited 1))"
  by (simp add: main_def except_clauses_def)

text \<open>
  Witness for C6: a server interrupted while serving, and a taken port reported with
  errno 48 and with errno 98.
\<close>

theorem exit_codes_witness:
  "server_bind interrupted 8000 = None \<and> serve_forever interrupted = Some KeyboardInterrupt
   \<and> snd (main interrupted 8000) = Exited 0
   \<and> last (fst (main interrupted 8000)) = CHR 0x0A # stop_sign @ '' Server stopped by user''
   \<and> server_bind port_taken_macos 8000 = Some (OSError 48 ''Address already in use'')
   \<and> snd (main port_taken_macos 8000) = Exited 1
   \<and> server_bind port_taken_linux 8000 = Some (OSError 98 ''Address already in use'')
   \<and> snd (main port_taken_linux 8000) = Exited 1"
  using exit_codes [of interrupted 8000] exit_codes [of port_taken_macos 8000]
    exit_codes [of port_taken_linux 8000]
  by (simp add: server_bind_def interrupted_def port_taken_macos_def port_taken_linux_def)

end
